theory Spec2Isabelle
  imports
    Main
    "HOL-Library.Finite_Map"
    "HOL-Library.Char_ord"
    "HOL-Library.List_Lexorder"
    "HOL-Library.Sublist"
begin

section \<open>A GraphQL client over HTTP (package graphql, graphql.go)\<close>

text \<open>
  The package is one file: a client record \<open>GraphQL\<close>, its constructor \<open>New\<close> with the
  options \<open>WithClient\<close>, \<open>WithLogging\<close> and \<open>WithHeader\<close>, the variable binder
  \<open>WithVariable\<close>, and the call chain \<open>Execute\<close> / \<open>ExecuteOnEndpoint\<close> \<open>\<rightarrow>\<close> \<open>query\<close>
  \<open>\<rightarrow>\<close> \<open>RawRequest\<close>.

  Strings are byte lists (\<open>string\<close>), as Go's are. A Go map is a finite map
  (\<open>fmap\<close>); a nil map is \<open>None\<close>. An \<open>error\<close> return is \<open>error option\<close>, \<open>None\<close> for nil.
  What the code mutates through a pointer (the destination \<open>response\<close>) or changes in
  the outside world (whatever the log function does) is passed in and returned.

  The code of the packages the file imports is not part of the repository. What
  \<open>strings.TrimRight\<close>, \<open>http.Header.Set\<close> and \<open>json.Encoder.Encode\<close> do with the values this
  file gives them is written out below after their documentation; the rest (the HTTP
  round trip, the JSON decoder, the JSON text of a string and of a variable value, URL
  parsing, the order in which \<open>range\<close> visits a map) are parameters.
\<close>

subsection \<open>Data\<close>

text \<open>
  \<open>http.Request\<close> as \<open>RawRequest\<close> fills it: the method, the target URL, the header map
  (a key maps to a list of values), the bytes of the reader \<open>r\<close> given as the body, and
  the context.
\<close>

record 'c request =
  Method :: string
  URL :: string
  Header :: "(string, string list) fmap"
  ReqBody :: string
  Ctx :: 'c

text \<open>
  \<open>http.Response\<close>, as far as the code reads it: \<open>StatusCode\<close>, \<open>Status\<close>, and what
  \<open>ioutil.ReadAll(resp.Body)\<close> returns, \<open>Inl\<close> the read error or \<open>Inr\<close> the whole body.
\<close>

record response =
  StatusCode :: int
  Status :: string
  Body :: "string + string"

text \<open>
  What \<open>g.client.Do(req)\<close> gives back: \<open>reply\<close> is the transport error or the response,
  and \<open>sent\<close> is the number of bytes the HTTP layer has read from the request body. The
  body is read through the \<open>io.TeeReader\<close> of line 142, which copies exactly the bytes
  read into the buffer \<open>request\<close>; so \<open>request.String()\<close> is the first \<open>sent\<close> bytes of
  the body.
\<close>

record round_trip =
  sent :: nat
  reply :: "string + response"

text \<open>The struct \<open>GraphQL\<close>; \<open>logFunc\<close> is nil (\<open>None\<close>) or a function whose effect on the
  outside world \<open>'w\<close> is a state transformer.\<close>

record ('c, 'w) GraphQL =
  url :: string
  headers :: "(string, string) fmap"
  client :: "'c request \<Rightarrow> round_trip"
  logFunc :: "(string \<Rightarrow> 'w \<Rightarrow> 'w) option"

text \<open>The anonymous request struct of \<open>query\<close> (lines 117-123).\<close>

record 'v envelope =
  Query :: string
  Variables :: "(string, 'v) fmap option"

text \<open>An element of \<open>result.Errors\<close> (lines 177-179).\<close>

record result_error =
  Message :: string

text \<open>
  The errors the file makes with \<open>fmt.Errorf\<close>, one constructor for each call, holding
  the texts that are formatted in (a wrapped error by its message). \<open>Error\<close> is the
  message, as \<open>err.Error()\<close> returns it.
\<close>

datatype error =
    EncodingError string
  | CreateRequestError string
  | RequestError string
  | CopyError string
  | StatusError string
  | DecodingError string string
  | OpError string string

fun Error :: "error \<Rightarrow> string" where
  "Error (EncodingError err) = ''graphql encoding error: '' @ err"
| "Error (CreateRequestError err) = ''graphql create request error: '' @ err"
| "Error (RequestError err) = ''graphql request error: '' @ err"
| "Error (CopyError err) = ''graphql copy error: '' @ err"
| "Error (StatusError status) = ''graphql op error: status code: '' @ status"
| "Error (DecodingError err data) =
     ''graphql decoding error: '' @ err @ '' response: '' @ data"
| "Error (OpError request message) =
     ''graphql op error: request:['' @ request @ ''] error:['' @ message @ '']''"

text \<open>
  The imported code the file calls and this theory does not write out:
  \<^item> \<open>defaultClient\<close>: the round trip of the package's default \<open>http.Client\<close>;
  \<^item> \<open>marshalString\<close>: the JSON text \<open>encoding/json\<close> writes for a Go string;
  \<^item> \<open>marshalValue\<close>: the JSON text it writes for a variable value (an \<open>interface{}\<close>),
    or the error it reports for a value it cannot encode;
  \<^item> \<open>Unmarshal\<close>: \<open>json.Unmarshal(data, &result)\<close> with \<open>result.Data\<close> holding the
    destination: the destination afterwards, and the error or the decoded
    \<open>result.Errors\<close>;
  \<^item> \<open>NewRequestError\<close>: the error of \<open>http.NewRequestWithContext\<close> for a context and a
    target URL (the method is always POST), \<open>None\<close> when the request is made;
  \<^item> \<open>rangeKeys\<close>: the order in which \<open>range\<close> visits the keys of the header map. Go
    leaves the order open, so theorems hold for every enumeration of the keys.
\<close>

record ('v, 'd, 'c) library =
  defaultClient :: "'c request \<Rightarrow> round_trip"
  marshalString :: "string \<Rightarrow> string"
  marshalValue :: "'v \<Rightarrow> string + string"
  Unmarshal :: "string \<Rightarrow> 'd \<Rightarrow> 'd \<times> (string + result_error list)"
  NewRequestError :: "'c \<Rightarrow> string \<Rightarrow> string option"
  rangeKeys :: "(string, string) fmap \<Rightarrow> string list"

definition range_enumerates :: "('v, 'd, 'c, 'z) library_scheme \<Rightarrow> (string, string) fmap \<Rightarrow> bool" where
  "range_enumerates lib m =
     (distinct (rangeKeys lib m) \<and> set (rangeKeys lib m) = fset (fmdom m))"

subsection \<open>Construction and options (lines 47-87)\<close>

text \<open>
  \<open>strings.TrimRight(s, cutset)\<close> removes every trailing character that is in the cutset.
  The only cutset used is \<open>"/"\<close>, one ASCII byte, which is no part of a longer UTF-8
  sequence, so bytes and code points agree.
\<close>

definition TrimRight :: "string \<Rightarrow> string \<Rightarrow> string" where
  "TrimRight s cutset = rev (dropWhile (\<lambda>c. c \<in> set cutset) (rev s))"

definition New ::
  "('v, 'd, 'c, 'z) library_scheme \<Rightarrow> string \<Rightarrow>
   (('c, 'w) GraphQL \<Rightarrow> ('c, 'w) GraphQL) list \<Rightarrow> ('c, 'w) GraphQL" where
  "New lib url' options =
     fold (\<lambda>option gql. option gql) options
       \<lparr>url = TrimRight url' ''/'' @ ''/'',
        headers = fmempty,
        client = defaultClient lib,
        logFunc = None\<rparr>"

definition WithClient ::
  "('c request \<Rightarrow> round_trip) \<Rightarrow> ('c, 'w) GraphQL \<Rightarrow> ('c, 'w) GraphQL" where
  "WithClient client' = (\<lambda>gql. gql\<lparr>client := client'\<rparr>)"

definition WithLogging ::
  "(string \<Rightarrow> 'w \<Rightarrow> 'w) option \<Rightarrow> ('c, 'w) GraphQL \<Rightarrow> ('c, 'w) GraphQL" where
  "WithLogging logFunc' = (\<lambda>gql. gql\<lparr>logFunc := logFunc'\<rparr>)"

definition WithHeader :: "string \<Rightarrow> string \<Rightarrow> ('c, 'w) GraphQL \<Rightarrow> ('c, 'w) GraphQL" where
  "WithHeader key val =
     (\<lambda>gql. if key \<noteq> '''' then gql\<lparr>headers := fmupd key val (headers gql)\<rparr> else gql)"

definition WithVariable :: "string \<Rightarrow> 'v \<Rightarrow> (string, 'v) fmap \<Rightarrow> (string, 'v) fmap" where
  "WithVariable key val = (\<lambda>m. fmupd key val m)"

subsection \<open>Header keys (net/http, net/textproto)\<close>

text \<open>
  \<open>req.Header.Set(key, value)\<close> does not store under \<open>key\<close> itself: as documented, "the
  key is case insensitive; it is canonicalized by \<open>textproto.CanonicalMIMEHeaderKey\<close>",
  and the entry becomes the one-element list \<open>[value]\<close>. The canonical form turns the
  first letter and every letter after a hyphen into upper case and the other letters
  into lower case; a key holding a space or a byte that is no header field byte (no
  token character of RFC 7230) is returned as it is.
\<close>

definition validHeaderFieldByte :: "char \<Rightarrow> bool" where
  "validHeaderFieldByte c =
     ((CHR ''a'' \<le> c \<and> c \<le> CHR ''z'') \<or> (CHR ''A'' \<le> c \<and> c \<le> CHR ''Z'') \<or>
      (CHR ''0'' \<le> c \<and> c \<le> CHR ''9'') \<or>
      c \<in> set (''!#$%&*+-.^_|~'' @ [CHR 0x27, CHR 0x60]))"

definition toUpper :: "char \<Rightarrow> char" where
  "toUpper c = char_of (of_char c - (32 :: nat))"

definition toLower :: "char \<Rightarrow> char" where
  "toLower c = char_of (of_char c + (32 :: nat))"

fun canonicalMIMEHeaderKey :: "bool \<Rightarrow> string \<Rightarrow> string" where
  "canonicalMIMEHeaderKey upper [] = []"
| "canonicalMIMEHeaderKey upper (c # cs) =
     (let c' = (if upper \<and> CHR ''a'' \<le> c \<and> c \<le> CHR ''z'' then toUpper c
                else if \<not> upper \<and> CHR ''A'' \<le> c \<and> c \<le> CHR ''Z'' then toLower c
                else c)
      in c' # canonicalMIMEHeaderKey (c' = CHR ''-'') cs)"

definition CanonicalMIMEHeaderKey :: "string \<Rightarrow> string" where
  "CanonicalMIMEHeaderKey s =
     (if list_all validHeaderFieldByte s then canonicalMIMEHeaderKey True s else s)"

definition Header_Set ::
  "(string, string list) fmap \<Rightarrow> string \<Rightarrow> string \<Rightarrow> (string, string list) fmap" where
  "Header_Set h key val = fmupd (CanonicalMIMEHeaderKey key) [val] h"

subsection \<open>The JSON text of the envelope (encoding/json)\<close>

text \<open>
  \<open>json.NewEncoder(&b).Encode(request)\<close> writes the JSON encoding of the struct,
  "followed by a newline character". The struct has two fields, written in the order
  of their declaration under the names of their tags: \<open>query\<close>, a string, and
  \<open>variables\<close>, a map, which encodes as \<open>null\<close> when it is nil and otherwise as an
  object with "the map keys sorted". An error for one value is the error of the whole
  call, and then nothing is written.
\<close>

fun join :: "string \<Rightarrow> string list \<Rightarrow> string" where
  "join sep [] = []"
| "join sep [x] = x"
| "join sep (x # y # ys) = x @ sep @ join sep (y # ys)"

definition mapEntries :: "(string, 'v) fmap \<Rightarrow> (string \<times> 'v) list" where
  "mapEntries m =
     List.map_filter (\<lambda>k. map_option (Pair k) (fmlookup m k)) (sorted_list_of_fset (fmdom m))"

fun marshalEntries ::
  "('v, 'd, 'c, 'z) library_scheme \<Rightarrow> (string \<times> 'v) list \<Rightarrow> string + string list" where
  "marshalEntries lib [] = Inr []"
| "marshalEntries lib ((k, v) # kvs) =
     (case marshalValue lib v of
        Inl err \<Rightarrow> Inl err
      | Inr j \<Rightarrow>
          (case marshalEntries lib kvs of
             Inl err \<Rightarrow> Inl err
           | Inr js \<Rightarrow> Inr ((marshalString lib k @ '':'' @ j) # js)))"

definition marshalMap ::
  "('v, 'd, 'c, 'z) library_scheme \<Rightarrow> (string, 'v) fmap option \<Rightarrow> string + string" where
  "marshalMap lib vars =
     (case vars of
        None \<Rightarrow> Inr ''null''
      | Some m \<Rightarrow>
          (case marshalEntries lib (mapEntries m) of
             Inl err \<Rightarrow> Inl err
           | Inr js \<Rightarrow> Inr (''{'' @ join '','' js @ ''}'')))"

definition queryField :: string where
  \<open>queryField = ''{"query":''\<close>

definition variablesField :: string where
  \<open>variablesField = '',"variables":''\<close>

definition Marshal ::
  "('v, 'd, 'c, 'z) library_scheme \<Rightarrow> 'v envelope \<Rightarrow> string + string" where
  "Marshal lib request =
     (case marshalMap lib (Variables request) of
        Inl err \<Rightarrow> Inl err
      | Inr vars \<Rightarrow>
          Inr (queryField @ marshalString lib (Query request) @ variablesField @ vars @ ''}''))"

definition Encode ::
  "('v, 'd, 'c, 'z) library_scheme \<Rightarrow> 'v envelope \<Rightarrow> string + string" where
  "Encode lib request =
     (case Marshal lib request of
        Inl err \<Rightarrow> Inl err
      | Inr j \<Rightarrow> Inr (j @ [CHR 0x0A]))"

subsection \<open>RawRequest (lines 135-192)\<close>

text \<open>
  Lines 144-154: the request handed to the client. \<open>http.NewRequestWithContext\<close> starts
  with an empty header map; the three fixed headers are set, then the loop sets every
  entry of \<open>g.headers\<close>, in the order \<open>range\<close> visits them.
\<close>

definition outboundRequest ::
  "('v, 'd, 'c, 'z) library_scheme \<Rightarrow> ('c, 'w) GraphQL \<Rightarrow> 'c \<Rightarrow> string \<Rightarrow> string \<Rightarrow> 'c request" where
  "outboundRequest lib g ctx endpoint r =
     (let req = \<lparr>Method = ''POST'', URL = url g @ endpoint, Header = fmempty,
                 ReqBody = r, Ctx = ctx\<rparr>;
          req = req\<lparr>Header := Header_Set (Header req) ''Cache-Control'' ''no-cache''\<rparr>;
          req = req\<lparr>Header := Header_Set (Header req) ''Content-Type'' ''application/json''\<rparr>;
          req = req\<lparr>Header := Header_Set (Header req) ''Accept'' ''application/json''\<rparr>
      in fold (\<lambda>key req.
                 case fmlookup (headers g) key of
                   Some val \<Rightarrow> req\<lparr>Header := Header_Set (Header req) key val\<rparr>
                 | None \<Rightarrow> req)
           (rangeKeys lib (headers g)) req)"

definition logLine :: "string \<Rightarrow> string \<Rightarrow> string" where
  "logLine request data = ''request:['' @ request @ ''] data:['' @ data @ '']''"

text \<open>
  The result is the returned error, the destination \<open>response\<close> as the call leaves it,
  and the outside world as the log function leaves it.
\<close>

definition RawRequest ::
  "('v, 'd, 'c, 'z) library_scheme \<Rightarrow> ('c, 'w) GraphQL \<Rightarrow> 'c \<Rightarrow> string \<Rightarrow> string \<Rightarrow> 'd \<Rightarrow> 'w \<Rightarrow>
   error option \<times> 'd \<times> 'w" where
  "RawRequest lib g ctx endpoint r response w =
     (case NewRequestError lib ctx (url g @ endpoint) of
        Some err \<Rightarrow> (Some (CreateRequestError err), response, w)
      | None \<Rightarrow>
          (let rt = client g (outboundRequest lib g ctx endpoint r);
               request = take (sent rt) r
           in case reply rt of
                Inl err \<Rightarrow> (Some (RequestError err), response, w)
              | Inr resp \<Rightarrow>
                  (case Body resp of
                     Inl err \<Rightarrow> (Some (CopyError err), response, w)
                   | Inr data \<Rightarrow>
                       if StatusCode resp \<noteq> 200
                       then (Some (StatusError (Status resp)), response, w)
                       else
                         (let w' = (case logFunc g of
                                      Some f \<Rightarrow> f (logLine request data) w
                                    | None \<Rightarrow> w)
                          in case Unmarshal lib data response of
                               (response', Inl err) \<Rightarrow>
                                 (Some (DecodingError err data), response', w')
                             | (response', Inr errors) \<Rightarrow>
                                 if length errors > 0
                                 then (Some (OpError request (Message (errors ! 0))),
                                       response', w')
                                 else (None, response', w')))))"

subsection \<open>query, Execute, ExecuteOnEndpoint (lines 91-131)\<close>

definition query ::
  "('v, 'd, 'c, 'z) library_scheme \<Rightarrow> ('c, 'w) GraphQL \<Rightarrow> 'c \<Rightarrow> string \<Rightarrow> string \<Rightarrow>
   (string, 'v) fmap option \<Rightarrow> 'd \<Rightarrow> 'w \<Rightarrow> error option \<times> 'd \<times> 'w" where
  "query lib g ctx endpoint queryString queryVars response w =
     (case Encode lib \<lparr>Query = queryString, Variables = queryVars\<rparr> of
        Inl err \<Rightarrow> (Some (EncodingError err), response, w)
      | Inr b \<Rightarrow> RawRequest lib g ctx endpoint b response w)"

definition Execute ::
  "('v, 'd, 'c, 'z) library_scheme \<Rightarrow> ('c, 'w) GraphQL \<Rightarrow> 'c \<Rightarrow> string \<Rightarrow> 'd \<Rightarrow>
   ((string, 'v) fmap \<Rightarrow> (string, 'v) fmap) list \<Rightarrow> 'w \<Rightarrow> error option \<times> 'd \<times> 'w" where
  "Execute lib g ctx queryString response variables w =
     (let queryVars =
            (if length variables > 0
             then Some (fold (\<lambda>variable queryVars. variable queryVars) variables fmempty)
             else None)
      in query lib g ctx ''graphql'' queryString queryVars response w)"

definition ExecuteOnEndpoint ::
  "('v, 'd, 'c, 'z) library_scheme \<Rightarrow> ('c, 'w) GraphQL \<Rightarrow> 'c \<Rightarrow> string \<Rightarrow> string \<Rightarrow> 'd \<Rightarrow>
   ((string, 'v) fmap \<Rightarrow> (string, 'v) fmap) list \<Rightarrow> 'w \<Rightarrow> error option \<times> 'd \<times> 'w" where
  "ExecuteOnEndpoint lib g ctx endpoint queryString response variables w =
     (let queryVars =
            (if length variables > 0
             then Some (fold (\<lambda>variable queryVars. variable queryVars) variables fmempty)
             else None)
      in query lib g ctx endpoint queryString queryVars response w)"

subsection \<open>Notions the statements use\<close>

text \<open>
  The variables map both entry points build before they call \<open>query\<close> (lines 92-98 and
  105-111): nil without mutators, otherwise a fresh map with every mutator applied from
  left to right.
\<close>

definition queryVarsOf ::
  "((string, 'v) fmap \<Rightarrow> (string, 'v) fmap) list \<Rightarrow> (string, 'v) fmap option" where
  "queryVarsOf variables =
     (if length variables > 0
      then Some (fold (\<lambda>variable queryVars. variable queryVars) variables fmempty)
      else None)"

text \<open>
  The fields of \<open>GraphQL\<close> are unexported, so a caller in another package builds the
  options of \<open>New\<close> from the three constructors of this file. \<open>setting\<close> names such an
  option and \<open>option_of\<close> is the function it stands for.
\<close>

datatype ('c, 'w) setting =
    UseClient "'c request \<Rightarrow> round_trip"
  | UseLogging "(string \<Rightarrow> 'w \<Rightarrow> 'w) option"
  | UseHeader string string

fun option_of :: "('c, 'w) setting \<Rightarrow> ('c, 'w) GraphQL \<Rightarrow> ('c, 'w) GraphQL" where
  "option_of (UseClient c) = WithClient c"
| "option_of (UseLogging f) = WithLogging f"
| "option_of (UseHeader key val) = WithHeader key val"

text \<open>The three fixed headers of lines 149-151, as the header map holds them.\<close>

definition fixedHeaders :: "(string, string list) fmap" where
  "fixedHeaders =
     fmupd ''Accept'' [''application/json'']
       (fmupd ''Content-Type'' [''application/json'']
          (fmupd ''Cache-Control'' [''no-cache''] fmempty))"

subsection \<open>Concrete instances\<close>

text \<open>
  A library and clients to run the definitions on.
  \<^item> A variable value is a string or a channel; \<open>encoding/json\<close> has no encoding for
    a channel and reports an unsupported type. \<open>sample_quote\<close> is the JSON text of a
    string of letters and digits.
  \<^item> \<open>sample_Unmarshal\<close> lists what \<open>json.Unmarshal\<close> does for three response bodies when
    the destination is a pointer to a string: \<open>data\<close> is stored in the destination and
    \<open>errors\<close> in \<open>result.Errors\<close>. For the empty body it reports a syntax error and
    leaves the destination alone. Other bodies are not used.
  \<^item> \<open>sample_NewRequestError\<close>: the target \<open>http://host/%zz/graphql\<close> does not parse (an
    invalid escape) and \<open>http.NewRequestWithContext\<close> returns the error of \<open>url.Parse\<close>;
    the other targets used do parse.
  \<^item> \<open>range\<close> visits the header keys in ascending order.
\<close>

datatype sample_value = Str string | Chan

definition sample_quote :: "string \<Rightarrow> string" where
  "sample_quote s = [CHR 0x22] @ s @ [CHR 0x22]"

fun sample_marshalValue :: "sample_value \<Rightarrow> string + string" where
  "sample_marshalValue (Str s) = Inr (sample_quote s)"
| "sample_marshalValue Chan = Inl ''json: unsupported type: chan int''"

definition body_data :: string where
  \<open>body_data = ''{"data":"x"}''\<close>

definition body_errors :: string where
  \<open>body_errors = ''{"errors":[{"message":"boom"}]}''\<close>

definition body_both :: string where
  \<open>body_both = ''{"data":"x","errors":[{"message":"boom"},{"message":"bang"}]}''\<close>

definition sample_Unmarshal :: "string \<Rightarrow> string \<Rightarrow> string \<times> (string + result_error list)" where
  "sample_Unmarshal data dest =
     (if data = body_data then (''x'', Inr [])
      else if data = body_errors then (dest, Inr [\<lparr>Message = ''boom''\<rparr>])
      else if data = body_both
      then (''x'', Inr [\<lparr>Message = ''boom''\<rparr>, \<lparr>Message = ''bang''\<rparr>])
      else (dest, Inl ''unexpected end of JSON input''))"

definition sample_parse_error :: string where
  \<open>sample_parse_error = ''parse "http://host/%zz/graphql": invalid URL escape "%zz"''\<close>

definition sample_NewRequestError :: "unit \<Rightarrow> string \<Rightarrow> string option" where
  "sample_NewRequestError ctx target =
     (if target = ''http://host/%zz/graphql'' then Some sample_parse_error else None)"

text \<open>A client that reads the whole request body and gives a fixed reply.\<close>

definition replying :: "string + response \<Rightarrow> unit request \<Rightarrow> round_trip" where
  "replying rep req = \<lparr>sent = length (ReqBody req), reply = rep\<rparr>"

text \<open>
  The reply of a transport that cannot connect: the error of \<open>http.Client.Do\<close> for the
  target \<open>http://host/graphql\<close>, which names the method and the URL.
\<close>

definition sample_dial_error :: string where
  \<open>sample_dial_error =
     ''Post "http://host/graphql": dial tcp 127.0.0.1:80: connect: connection refused''\<close>

definition refused_reply :: "string + response" where
  "refused_reply = Inl sample_dial_error"

definition sample_lib :: "(sample_value, string, unit) library" where
  "sample_lib =
     \<lparr>defaultClient = replying refused_reply,
      marshalString = sample_quote,
      marshalValue = sample_marshalValue,
      Unmarshal = sample_Unmarshal,
      NewRequestError = sample_NewRequestError,
      rangeKeys = (\<lambda>m. sorted_list_of_fset (fmdom m))\<rparr>"

text \<open>The sink that records the strings it is called with, the latest last.\<close>

definition recording :: "string \<Rightarrow> string list \<Rightarrow> string list" where
  "recording s w = w @ [s]"

text \<open>
  A client of the sample library at the base URL \<open>base\<close> whose transport gives the
  reply \<open>rep\<close> and whose log function is the recording sink.
\<close>

definition sample_client_at :: "string \<Rightarrow> string + response \<Rightarrow> (unit, string list) GraphQL" where
  "sample_client_at base rep =
     New sample_lib base [WithClient (replying rep), WithLogging (Some recording)]"

definition sample_client :: "string + response \<Rightarrow> (unit, string list) GraphQL" where
  "sample_client rep = sample_client_at ''http://host'' rep"

text \<open>
  Replies: status 200 with a body that is read in full; status 500 with such a body;
  status 200, and status 500, with a body whose reading fails.
\<close>

definition ok_reply :: "string \<Rightarrow> string + response" where
  "ok_reply data = Inr \<lparr>StatusCode = 200, Status = ''200 OK'', Body = Inr data\<rparr>"

definition server_error_reply :: "string \<Rightarrow> string + response" where
  "server_error_reply data =
     Inr \<lparr>StatusCode = 500, Status = ''500 Internal Server Error'', Body = Inr data\<rparr>"

definition unread_reply :: "string + response" where
  "unread_reply = Inr \<lparr>StatusCode = 200, Status = ''200 OK'', Body = Inl ''unexpected EOF''\<rparr>"

definition unread_error_reply :: "string + response" where
  "unread_error_reply =
     Inr \<lparr>StatusCode = 500, Status = ''500 Internal Server Error'',
          Body = Inl ''unexpected EOF''\<rparr>"

text \<open>The envelope of the query \<open>q\<close> without variables, as \<open>Encode\<close> writes it.\<close>

definition sample_body :: string where
  \<open>sample_body = ''{"query":"q","variables":null}'' @ [CHR 0x0A]\<close>

section \<open>Properties\<close>

subsection \<open>The base URL\<close>

lemma TrimRight_slashes: "TrimRight (u @ replicate n CHR ''/'') ''/'' = TrimRight u ''/''"
proof -
  have "dropWhile (\<lambda>c. c \<in> set ''/'') (replicate n CHR ''/'' @ xs) =
        dropWhile (\<lambda>c. c \<in> set ''/'') xs" for xs
    by (induction n) simp_all
  then show ?thesis by (simp add: TrimRight_def)
qed

lemma TrimRight_no_slash_end: "TrimRight u ''/'' \<noteq> b @ ''/''"
proof
  assume "TrimRight u ''/'' = b @ ''/''"
  then have "dropWhile (\<lambda>c. c \<in> set ''/'') (rev u) = CHR ''/'' # rev b"
    by (metis TrimRight_def rev_append rev_rev_ident rev_singleton_conv append_Cons append_Nil)
  then show False
    by (metis hd_dropWhile list.sel(1) list.distinct(1) list.set_intros(1))
qed

lemma url_option_of: "url (option_of s g) = url g"
  by (cases s) (simp_all add: WithClient_def WithLogging_def WithHeader_def)

lemma url_fold_options:
  "url (fold (\<lambda>option gql. option gql) (map option_of ss) g) = url g"
  by (induction ss arbitrary: g) (simp_all add: url_option_of)

subsection \<open>The request handed to the client\<close>

lemma outboundRequest_fold_fields:
  "URL (fold (\<lambda>key req. case fmlookup hs key of
                 Some val \<Rightarrow> req\<lparr>Header := Header_Set (Header req) key val\<rparr>
               | None \<Rightarrow> req) ks req) = URL req
   \<and> ReqBody (fold (\<lambda>key req. case fmlookup hs key of
                 Some val \<Rightarrow> req\<lparr>Header := Header_Set (Header req) key val\<rparr>
               | None \<Rightarrow> req) ks req) = ReqBody req
   \<and> Method (fold (\<lambda>key req. case fmlookup hs key of
                 Some val \<Rightarrow> req\<lparr>Header := Header_Set (Header req) key val\<rparr>
               | None \<Rightarrow> req) ks req) = Method req
   \<and> Ctx (fold (\<lambda>key req. case fmlookup hs key of
                 Some val \<Rightarrow> req\<lparr>Header := Header_Set (Header req) key val\<rparr>
               | None \<Rightarrow> req) ks req) = Ctx req"
  by (induction ks arbitrary: req) (simp_all split: option.splits)

lemma URL_outboundRequest: "URL (outboundRequest lib g ctx endpoint r) = url g @ endpoint"
  by (simp add: outboundRequest_def Let_def outboundRequest_fold_fields)

lemma ReqBody_outboundRequest: "ReqBody (outboundRequest lib g ctx endpoint r) = r"
  by (simp add: outboundRequest_def Let_def outboundRequest_fold_fields)

lemma Header_fold:
  "Header (fold (\<lambda>key req. case fmlookup hs key of
                   Some val \<Rightarrow> req\<lparr>Header := Header_Set (Header req) key val\<rparr>
                 | None \<Rightarrow> req) ks req) =
   fold (\<lambda>key h. case fmlookup hs key of Some val \<Rightarrow> Header_Set h key val | None \<Rightarrow> h)
     ks (Header req)"
  by (induction ks arbitrary: req) (simp_all split: option.splits)

lemma fixed_names_canonical:
  "CanonicalMIMEHeaderKey ''Cache-Control'' = ''Cache-Control''"
  "CanonicalMIMEHeaderKey ''Content-Type'' = ''Content-Type''"
  "CanonicalMIMEHeaderKey ''Accept'' = ''Accept''"
  by code_simp+

lemma Header_outboundRequest:
  "Header (outboundRequest lib g ctx endpoint r) =
     fold (\<lambda>key h. case fmlookup (headers g) key of
                      Some val \<Rightarrow> Header_Set h key val
                    | None \<Rightarrow> h)
       (rangeKeys lib (headers g)) fixedHeaders"
  by (simp add: outboundRequest_def Let_def Header_fold Header_Set_def fixed_names_canonical
      fixedHeaders_def)

lemma fixedHeaders_lookup:
  "fmlookup fixedHeaders name =
     (if name = ''Accept'' then Some [''application/json'']
      else if name = ''Content-Type'' then Some [''application/json'']
      else if name = ''Cache-Control'' then Some [''no-cache'']
      else None)"
  by (simp add: fixedHeaders_def)

lemma overlay_lookup:
  "\<forall>k \<in> set ks. k |\<in>| fmdom hs \<Longrightarrow>
   fmlookup (fold (\<lambda>key h. case fmlookup hs key of
                              Some val \<Rightarrow> Header_Set h key val
                            | None \<Rightarrow> h) ks h) name =
     (if filter (\<lambda>key. CanonicalMIMEHeaderKey key = name) ks = [] then fmlookup h name
      else map_option (\<lambda>val. [val])
             (fmlookup hs (last (filter (\<lambda>key. CanonicalMIMEHeaderKey key = name) ks))))"
proof (induction ks rule: rev_induct)
  case Nil
  then show ?case by simp
next
  case (snoc x xs)
  from snoc.prems obtain v where v: "fmlookup hs x = Some v"
    by (auto simp add: fmlookup_dom_iff)
  from snoc.prems have "\<forall>k \<in> set xs. k |\<in>| fmdom hs" by simp
  from snoc.IH [OF this] show ?case
    by (simp add: v Header_Set_def)
qed

lemma length_canonicalMIMEHeaderKey: "length (canonicalMIMEHeaderKey upper s) = length s"
  by (induction s arbitrary: upper) (simp_all add: Let_def)

lemma CanonicalMIMEHeaderKey_empty: "CanonicalMIMEHeaderKey key = [] \<longleftrightarrow> key = []"
proof -
  have "canonicalMIMEHeaderKey True key = [] \<longleftrightarrow> key = []"
    using length_canonicalMIMEHeaderKey [of True key] by (metis length_0_conv)
  then show ?thesis by (simp add: CanonicalMIMEHeaderKey_def)
qed

lemma request_header_absent:
  assumes "range_enumerates lib (headers g)"
    and "\<forall>k. k |\<in>| fmdom (headers g) \<longrightarrow> CanonicalMIMEHeaderKey k \<noteq> name"
  shows "fmlookup (Header (outboundRequest lib g ctx endpoint r)) name =
         fmlookup fixedHeaders name"
proof -
  have dom: "\<forall>k \<in> set (rangeKeys lib (headers g)). k |\<in>| fmdom (headers g)"
    using assms(1) by (simp add: range_enumerates_def)
  then have "filter (\<lambda>key. CanonicalMIMEHeaderKey key = name) (rangeKeys lib (headers g)) = []"
    using assms(2) by (simp add: filter_empty_conv)
  then show ?thesis
    by (simp add: Header_outboundRequest overlay_lookup [OF dom])
qed

lemma request_header_custom:
  assumes "range_enumerates lib (headers g)"
    and "k |\<in>| fmdom (headers g)" and "CanonicalMIMEHeaderKey k = name"
  shows "\<exists>key val. fmlookup (headers g) key = Some val \<and> CanonicalMIMEHeaderKey key = name \<and>
           fmlookup (Header (outboundRequest lib g ctx endpoint r)) name = Some [val]"
proof -
  let ?ks = "filter (\<lambda>key. CanonicalMIMEHeaderKey key = name) (rangeKeys lib (headers g))"
  have dom: "\<forall>k \<in> set (rangeKeys lib (headers g)). k |\<in>| fmdom (headers g)"
    using assms(1) by (simp add: range_enumerates_def)
  have "k \<in> set ?ks"
    using assms by (simp add: range_enumerates_def)
  then have ne: "?ks \<noteq> []" by (metis empty_iff list.set(1))
  then have "last ?ks \<in> set ?ks" by (rule last_in_set)
  then have canon: "CanonicalMIMEHeaderKey (last ?ks) = name"
    and "last ?ks |\<in>| fmdom (headers g)"
    using dom by auto
  then obtain val where val: "fmlookup (headers g) (last ?ks) = Some val"
    by (auto simp add: fmlookup_dom_iff)
  have "fmlookup (Header (outboundRequest lib g ctx endpoint r)) name = Some [val]"
    using ne val by (simp add: Header_outboundRequest overlay_lookup [OF dom])
  with val canon show ?thesis by blast
qed

lemma request_header_single:
  assumes "range_enumerates lib (headers g)"
    and "fmlookup (headers g) key = Some val"
    and "\<forall>k. k |\<in>| fmdom (headers g) \<and> CanonicalMIMEHeaderKey k = CanonicalMIMEHeaderKey key
           \<longrightarrow> k = key"
  shows "fmlookup (Header (outboundRequest lib g ctx endpoint r)) (CanonicalMIMEHeaderKey key) =
         Some [val]"
proof -
  have "key |\<in>| fmdom (headers g)"
    using assms(2) by (simp add: fmdomI)
  from request_header_custom [OF assms(1) this refl, of ctx endpoint r]
  obtain k v where "fmlookup (headers g) k = Some v"
    and "CanonicalMIMEHeaderKey k = CanonicalMIMEHeaderKey key"
    and got: "fmlookup (Header (outboundRequest lib g ctx endpoint r))
                (CanonicalMIMEHeaderKey key) = Some [v]"
    by blast
  then have "k = key" using assms(3) by (simp add: fmdomI)
  then show ?thesis
    using got \<open>fmlookup (headers g) k = Some v\<close> assms(2) by simp
qed

lemma headers_option_of:
  "'''' |\<notin>| fmdom (headers gql) \<Longrightarrow> '''' |\<notin>| fmdom (headers (option_of s gql))"
  by (cases s) (simp_all add: WithClient_def WithLogging_def WithHeader_def)

lemma headers_fold_options:
  "'''' |\<notin>| fmdom (headers gql) \<Longrightarrow>
   '''' |\<notin>| fmdom (headers (fold (\<lambda>option gql. option gql) (map option_of ss) gql))"
  by (induction ss arbitrary: gql) (simp_all add: headers_option_of)

lemma New_no_empty_key: "'''' |\<notin>| fmdom (headers (New lib u (map option_of settings)))"
  unfolding New_def by (rule headers_fold_options) simp

subsection \<open>The paths through RawRequest\<close>

lemma RawRequest_not_created:
  "NewRequestError lib ctx (url g @ endpoint) = Some err \<Longrightarrow>
   RawRequest lib g ctx endpoint r response w = (Some (CreateRequestError err), response, w)"
  by (simp add: RawRequest_def)

lemma RawRequest_transport_failed:
  "NewRequestError lib ctx (url g @ endpoint) = None \<Longrightarrow>
   reply (client g (outboundRequest lib g ctx endpoint r)) = Inl err \<Longrightarrow>
   RawRequest lib g ctx endpoint r response w = (Some (RequestError err), response, w)"
  by (simp add: RawRequest_def Let_def)

lemma RawRequest_body_unread:
  "NewRequestError lib ctx (url g @ endpoint) = None \<Longrightarrow>
   reply (client g (outboundRequest lib g ctx endpoint r)) = Inr resp \<Longrightarrow>
   Body resp = Inl err \<Longrightarrow>
   RawRequest lib g ctx endpoint r response w = (Some (CopyError err), response, w)"
  by (simp add: RawRequest_def Let_def)

lemma RawRequest_bad_status:
  "NewRequestError lib ctx (url g @ endpoint) = None \<Longrightarrow>
   reply (client g (outboundRequest lib g ctx endpoint r)) = Inr resp \<Longrightarrow>
   Body resp = Inr data \<Longrightarrow> StatusCode resp \<noteq> 200 \<Longrightarrow>
   RawRequest lib g ctx endpoint r response w = (Some (StatusError (Status resp)), response, w)"
  by (simp add: RawRequest_def Let_def)

lemma RawRequest_ok_status:
  "NewRequestError lib ctx (url g @ endpoint) = None \<Longrightarrow>
   reply (client g (outboundRequest lib g ctx endpoint r)) = Inr resp \<Longrightarrow>
   Body resp = Inr data \<Longrightarrow> StatusCode resp = 200 \<Longrightarrow>
   Unmarshal lib data response = (response', res) \<Longrightarrow>
   RawRequest lib g ctx endpoint r response w =
     (case res of
        Inl err \<Rightarrow> Some (DecodingError err data)
      | Inr errors \<Rightarrow>
          (case errors of
             [] \<Rightarrow> None
           | e # es \<Rightarrow>
               Some (OpError (take (sent (client g (outboundRequest lib g ctx endpoint r))) r)
                       (Message e))),
      response',
      case logFunc g of
        Some f \<Rightarrow>
          f (logLine (take (sent (client g (outboundRequest lib g ctx endpoint r))) r) data) w
      | None \<Rightarrow> w)"
  by (simp add: RawRequest_def Let_def split: sum.splits list.splits)

lemma logLine_holds_both:
  "sublist request (logLine request data) \<and> sublist data (logLine request data)"
proof -
  have "logLine request data = ''request:['' @ request @ (''] data:['' @ data @ '']'')"
    by (simp add: logLine_def)
  moreover have "logLine request data = (''request:['' @ request @ ''] data:['') @ data @ '']''"
    by (simp add: logLine_def)
  ultimately show ?thesis
    unfolding sublist_def by blast
qed

subsection \<open>The envelope and its variables\<close>

lemma query_encoded:
  "Encode lib \<lparr>Query = queryString, Variables = queryVars\<rparr> = Inr b \<Longrightarrow>
   query lib g ctx endpoint queryString queryVars response w =
     RawRequest lib g ctx endpoint b response w"
  by (simp add: query_def)

lemma query_not_encoded:
  "Encode lib \<lparr>Query = queryString, Variables = queryVars\<rparr> = Inl err \<Longrightarrow>
   query lib g ctx endpoint queryString queryVars response w =
     (Some (EncodingError err), response, w)"
  by (simp add: query_def)

lemma Execute_query:
  "Execute lib g ctx queryString response variables w =
     query lib g ctx ''graphql'' queryString (queryVarsOf variables) response w"
  by (simp add: Execute_def queryVarsOf_def)

lemma ExecuteOnEndpoint_query:
  "ExecuteOnEndpoint lib g ctx endpoint queryString response variables w =
     query lib g ctx endpoint queryString (queryVarsOf variables) response w"
  by (simp add: ExecuteOnEndpoint_def queryVarsOf_def)

lemma Encode_marshalled:
  "marshalMap lib vars = Inr v \<Longrightarrow>
   Encode lib \<lparr>Query = queryString, Variables = vars\<rparr> =
     Inr (queryField @ marshalString lib queryString @ variablesField @ v @ ''}'' @ [CHR 0x0A])"
  by (simp add: Encode_def Marshal_def)

lemma Encode_not_marshalled:
  "marshalMap lib vars = Inl err \<Longrightarrow>
   Encode lib \<lparr>Query = queryString, Variables = vars\<rparr> = Inl err"
  by (simp add: Encode_def Marshal_def)

lemma queryVarsOf_Nil: "queryVarsOf [] = None"
  by (simp add: queryVarsOf_def)

lemma queryVarsOf_Cons:
  "variables \<noteq> [] \<Longrightarrow>
   queryVarsOf variables = Some (fold (\<lambda>variable queryVars. variable queryVars) variables fmempty)"
  by (simp add: queryVarsOf_def)

lemma fold_WithVariable:
  "fmlookup (fold (\<lambda>variable queryVars. variable queryVars)
               (map (\<lambda>(k, v). WithVariable k v) kvs) m) key =
     (case map_of (rev kvs) key of Some v \<Rightarrow> Some v | None \<Rightarrow> fmlookup m key)"
proof (induction kvs arbitrary: m)
  case Nil
  then show ?case by simp
next
  case (Cons kv kvs)
  obtain k v where kv: "kv = (k, v)" by (cases kv)
  have "fmlookup (WithVariable k v m) key = (if key = k then Some v else fmlookup m key)"
    by (simp add: WithVariable_def)
  then show ?case
    by (simp add: kv Cons.IH map_add_def split: option.splits)
qed

lemma map_filter_total:
  "\<forall>k \<in> set ks. \<exists>v. f k = Some v \<Longrightarrow> map fst (List.map_filter (\<lambda>k. map_option (Pair k) (f k)) ks) = ks"
  by (induction ks) auto

lemma mapEntries_keys: "map fst (mapEntries m) = sorted_list_of_fset (fmdom m)"
  unfolding mapEntries_def
  by (rule map_filter_total) (simp add: fmlookup_dom_iff)

lemma mapEntries_set: "set (mapEntries m) = {(k, v). fmlookup m k = Some v}"
proof -
  have "set (List.map_filter (\<lambda>k. map_option (Pair k) (fmlookup m k)) ks) =
        {(k, v). k \<in> set ks \<and> fmlookup m k = Some v}" for ks
    by (induction ks) (auto split: option.splits)
  then show ?thesis
    by (auto simp add: mapEntries_def fmlookup_dom_iff)
qed

lemma mapEntries_sorted: "sorted (map fst (mapEntries m)) \<and> distinct (map fst (mapEntries m))"
  by (simp add: mapEntries_keys sorted_list_of_fset.rep_eq)

lemma marshalEntries_texts:
  "marshalEntries lib kvs = Inr js \<Longrightarrow>
   list_all2 (\<lambda>(k, v) j. \<exists>t. marshalValue lib v = Inr t \<and> j = marshalString lib k @ '':'' @ t)
     kvs js"
proof (induction kvs arbitrary: js)
  case Nil
  then show ?case by simp
next
  case (Cons kv kvs)
  obtain k v where kv: "kv = (k, v)" by (cases kv)
  from Cons.prems obtain t ts where
    t: "marshalValue lib v = Inr t" and ts: "marshalEntries lib kvs = Inr ts"
    and js: "js = (marshalString lib k @ '':'' @ t) # ts"
    by (auto simp add: kv split: sum.splits)
  show ?case
    using Cons.IH [OF ts] by (simp add: kv js t)
qed

subsection \<open>The sample instances\<close>

lemma sample_client_at_fields:
  "url (sample_client_at base rep) = TrimRight base ''/'' @ ''/''"
  "headers (sample_client_at base rep) = fmempty"
  "client (sample_client_at base rep) = replying rep"
  "logFunc (sample_client_at base rep) = Some recording"
  by (simp_all add: sample_client_at_def New_def WithClient_def WithLogging_def)

lemma sample_client_fields:
  "url (sample_client rep) = ''http://host/''"
  "headers (sample_client rep) = fmempty"
  "client (sample_client rep) = replying rep"
  "logFunc (sample_client rep) = Some recording"
  by (simp_all add: sample_client_def sample_client_at_fields TrimRight_def)

lemma sample_lib_fields:
  "marshalString sample_lib = sample_quote"
  "marshalValue sample_lib = sample_marshalValue"
  "Unmarshal sample_lib = sample_Unmarshal"
  "NewRequestError sample_lib = sample_NewRequestError"
  "rangeKeys sample_lib = (\<lambda>m. sorted_list_of_fset (fmdom m))"
  by (simp_all add: sample_lib_def)

lemma sample_Unmarshal_values:
  "sample_Unmarshal body_data dest = (''x'', Inr [])"
  "sample_Unmarshal body_errors dest = (dest, Inr [\<lparr>Message = ''boom''\<rparr>])"
  "sample_Unmarshal body_both dest =
     (''x'', Inr [\<lparr>Message = ''boom''\<rparr>, \<lparr>Message = ''bang''\<rparr>])"
  "sample_Unmarshal [] dest = (dest, Inl ''unexpected end of JSON input'')"
  by (simp_all add: sample_Unmarshal_def body_data_def body_errors_def body_both_def)

lemma sample_targets:
  "sample_NewRequestError ctx ''http://host/graphql'' = None"
  "sample_NewRequestError ctx ''http://host/%zz/graphql'' = Some sample_parse_error"
  by (simp_all add: sample_NewRequestError_def)

lemma sample_round_trip:
  "reply (replying rep req) = rep"
  "sent (replying rep (outboundRequest lib g ctx endpoint r)) = length r"
  by (simp_all add: replying_def ReqBody_outboundRequest)

lemma sample_range_enumerates: "range_enumerates sample_lib m"
  by (simp add: range_enumerates_def sample_lib_def sorted_list_of_fset.rep_eq)

lemma sample_canonical:
  "CanonicalMIMEHeaderKey ''x-a'' = ''X-A''"
  "CanonicalMIMEHeaderKey ''X'' = ''X''"
  by code_simp+

lemma sample_mapEntries:
  "mapEntries (fmupd ''key1'' (Str ''10'') (fmupd ''key2'' (Str ''hello'')
       (fmupd ''key1'' (Str ''1'') fmempty))) =
     [(''key1'', Str ''10''), (''key2'', Str ''hello'')]"
  by code_simp

lemma sample_body_encoded:
  "Encode sample_lib \<lparr>Query = ''q'', Variables = None\<rparr> = Inr sample_body"
  by (simp add: Encode_def Marshal_def marshalMap_def sample_lib_fields sample_quote_def
      queryField_def variablesField_def sample_body_def)

section \<open>The claims\<close>

subsection \<open>Errors reported by the server\<close>

text \<open>
  C1. A response with status 200 whose body is read and decodes with a non-empty
  \<open>errors\<close> list makes \<open>RawRequest\<close> return the composed error: its message is
  \<open>graphql op error: request:[...] error:[...]\<close> with the captured request (the bytes of
  the body the HTTP layer has read) and the message of the first error of the list.
  The later errors \<open>es\<close> are arbitrary and occur nowhere in the result. \<open>Execute\<close> and
  \<open>ExecuteOnEndpoint\<close> return the same error when \<open>r\<close> is the body their envelope
  encodes to.
\<close>

theorem first_error_only:
  assumes "NewRequestError lib ctx (url g @ endpoint) = None"
    and "reply (client g (outboundRequest lib g ctx endpoint r)) = Inr resp"
    and "sent (client g (outboundRequest lib g ctx endpoint r)) = n"
    and "Body resp = Inr data"
    and "StatusCode resp = 200"
    and "Unmarshal lib data response = (response', Inr (e # es))"
  shows "fst (RawRequest lib g ctx endpoint r response w) =
           Some (OpError (take n r) (Message e))
       \<and> Error (OpError (take n r) (Message e)) =
           ''graphql op error: request:['' @ take n r @ ''] error:['' @ Message e @ '']''
       \<and> (Encode lib \<lparr>Query = queryString, Variables = queryVarsOf variables\<rparr> = Inr r \<longrightarrow>
            fst (ExecuteOnEndpoint lib g ctx endpoint queryString response variables w) =
              Some (OpError (take n r) (Message e)))
       \<and> (Encode lib \<lparr>Query = queryString, Variables = queryVarsOf variables\<rparr> = Inr r \<and>
            endpoint = ''graphql'' \<longrightarrow>
            fst (Execute lib g ctx queryString response variables w) =
              Some (OpError (take n r) (Message e)))"
proof -
  have raw: "fst (RawRequest lib g ctx endpoint r response w) =
      Some (OpError (take n r) (Message e))"
    using RawRequest_ok_status [OF assms(1,2,4,5,6), of w] assms(3) by simp
  show ?thesis
    using raw by (auto simp add: Execute_query ExecuteOnEndpoint_query query_encoded)
qed

text \<open>
  The body \<open>body_both\<close> carries two errors, \<open>boom\<close> and \<open>bang\<close>; only \<open>boom\<close> is
  returned, with the envelope of the query \<open>q\<close> as the captured request.
\<close>

theorem first_error_only_witness:
  "fst (RawRequest sample_lib (sample_client (ok_reply body_both)) () ''graphql'' sample_body
          ''old'' []) = Some (OpError sample_body ''boom'')
   \<and> fst (Execute sample_lib (sample_client (ok_reply body_both)) () ''q'' ''old'' [] []) =
       Some (OpError sample_body ''boom'')
   \<and> fst (ExecuteOnEndpoint sample_lib (sample_client (ok_reply body_both)) () ''graphql'' ''q''
            ''old'' [] []) = Some (OpError sample_body ''boom'')"
  using first_error_only [where lib = sample_lib and ctx = "()"
      and g = "sample_client (ok_reply body_both)" and endpoint = "''graphql''"
      and r = sample_body
      and resp = "\<lparr>StatusCode = 200, Status = ''200 OK'', Body = Inr body_both\<rparr>"
      and n = "length sample_body" and data = body_both and response = "''old''"
      and response' = "''x''" and e = "\<lparr>Message = ''boom''\<rparr>"
      and es = "[\<lparr>Message = ''bang''\<rparr>]" and w = "[]" and queryString = "''q''"
      and variables = "[]"]
  by (simp add: sample_client_fields sample_round_trip ok_reply_def sample_lib_fields
      sample_targets sample_Unmarshal_values queryVarsOf_Nil sample_body_encoded)

subsection \<open>Variables\<close>

text \<open>
  C2. Without mutators the variables map is nil, the envelope ends in
  \<open>"variables":null\<close>, and both entry points call \<open>RawRequest\<close> with exactly that body.
  With mutators the map is the empty map with every mutator applied from left to
  right; for mutators made by \<open>WithVariable\<close> a key holds the value of the last pair
  that names it. The encoded envelope lists exactly the entries of that map, each key
  once, in ascending order of the keys, each as the text of the key, a colon and the
  text of the value; \<open>query\<close> encodes this envelope and both entry points call
  \<open>RawRequest\<close> with it, which hands it to the client unchanged as the request body.
\<close>

theorem variables_in_order:
  "queryVarsOf ([] :: ((string, 'v) fmap \<Rightarrow> (string, 'v) fmap) list) = None
   \<and> Encode lib \<lparr>Query = queryString, Variables = None\<rparr> =
       Inr (queryField @ marshalString lib queryString @ variablesField @ ''null'' @ ''}'' @
            [CHR 0x0A])
   \<and> Execute lib g ctx queryString response [] w =
       RawRequest lib g ctx ''graphql''
         (queryField @ marshalString lib queryString @ variablesField @ ''null'' @ ''}'' @
          [CHR 0x0A]) response w
   \<and> ExecuteOnEndpoint lib g ctx endpoint queryString response [] w =
       RawRequest lib g ctx endpoint
         (queryField @ marshalString lib queryString @ variablesField @ ''null'' @ ''}'' @
          [CHR 0x0A]) response w
   \<and> (variables \<noteq> [] \<longrightarrow>
        queryVarsOf variables =
          Some (fold (\<lambda>variable queryVars. variable queryVars) variables fmempty))
   \<and> (kvs \<noteq> [] \<longrightarrow>
        (\<exists>m. queryVarsOf (map (\<lambda>(k, v). WithVariable k v) kvs) = Some m \<and>
             (\<forall>key. fmlookup m key = map_of (rev kvs) key)))
   \<and> (queryVarsOf variables = Some m \<and> marshalEntries lib (mapEntries m) = Inr js \<longrightarrow>
        Encode lib \<lparr>Query = queryString, Variables = queryVarsOf variables\<rparr> =
          Inr (queryField @ marshalString lib queryString @ variablesField @
               ''{'' @ join '','' js @ ''}'' @ ''}'' @ [CHR 0x0A])
        \<and> set (mapEntries m) = {(k, v). fmlookup m k = Some v}
        \<and> sorted (map fst (mapEntries m)) \<and> distinct (map fst (mapEntries m))
        \<and> list_all2
            (\<lambda>(k, v) j. \<exists>t. marshalValue lib v = Inr t \<and> j = marshalString lib k @ '':'' @ t)
            (mapEntries m) js
        \<and> Execute lib g ctx queryString response variables w =
            RawRequest lib g ctx ''graphql''
              (queryField @ marshalString lib queryString @ variablesField @
               ''{'' @ join '','' js @ ''}'' @ ''}'' @ [CHR 0x0A]) response w
        \<and> ExecuteOnEndpoint lib g ctx endpoint queryString response variables w =
            RawRequest lib g ctx endpoint
              (queryField @ marshalString lib queryString @ variablesField @
               ''{'' @ join '','' js @ ''}'' @ ''}'' @ [CHR 0x0A]) response w
        \<and> ReqBody (outboundRequest lib g ctx endpoint
              (queryField @ marshalString lib queryString @ variablesField @
               ''{'' @ join '','' js @ ''}'' @ ''}'' @ [CHR 0x0A])) =
            queryField @ marshalString lib queryString @ variablesField @
              ''{'' @ join '','' js @ ''}'' @ ''}'' @ [CHR 0x0A])
   \<and> Execute lib g ctx queryString response variables w =
       query lib g ctx ''graphql'' queryString (queryVarsOf variables) response w
   \<and> ExecuteOnEndpoint lib g ctx endpoint queryString response variables w =
       query lib g ctx endpoint queryString (queryVarsOf variables) response w"
proof -
  let ?null = "queryField @ marshalString lib queryString @ variablesField @ ''null'' @ ''}'' @
      [CHR 0x0A]"
  let ?body = "queryField @ marshalString lib queryString @ variablesField @
      ''{'' @ join '','' js @ ''}'' @ ''}'' @ [CHR 0x0A]"
  have nil: "queryVarsOf ([] :: ((string, 'v) fmap \<Rightarrow> (string, 'v) fmap) list) = None"
    by (rule queryVarsOf_Nil)
  have none: "Encode lib \<lparr>Query = queryString, Variables = None\<rparr> = Inr ?null"
    by (rule Encode_marshalled) (simp add: marshalMap_def)
  have bare: "Execute lib g ctx queryString response [] w =
        RawRequest lib g ctx ''graphql'' ?null response w
      \<and> ExecuteOnEndpoint lib g ctx endpoint queryString response [] w =
        RawRequest lib g ctx endpoint ?null response w"
    using none by (simp add: Execute_query ExecuteOnEndpoint_query queryVarsOf_Nil query_def)
  have cons: "variables \<noteq> [] \<longrightarrow>
        queryVarsOf variables =
          Some (fold (\<lambda>variable queryVars. variable queryVars) variables fmempty)"
    by (simp add: queryVarsOf_Cons)
  have later: "kvs \<noteq> [] \<longrightarrow>
        (\<exists>m. queryVarsOf (map (\<lambda>(k, v). WithVariable k v) kvs) = Some m \<and>
             (\<forall>key. fmlookup m key = map_of (rev kvs) key))"
    by (simp add: queryVarsOf_def fold_WithVariable split: option.splits)
  have pairs: "Encode lib \<lparr>Query = queryString, Variables = queryVarsOf variables\<rparr> = Inr ?body"
    if a: "queryVarsOf variables = Some m \<and> marshalEntries lib (mapEntries m) = Inr js"
  proof -
    from a have "marshalMap lib (queryVarsOf variables) = Inr (''{'' @ join '','' js @ ''}'')"
      by (simp add: marshalMap_def)
    from Encode_marshalled [OF this] show ?thesis
      by simp
  qed
  have sends: "Execute lib g ctx queryString response variables w =
        RawRequest lib g ctx ''graphql'' ?body response w
      \<and> ExecuteOnEndpoint lib g ctx endpoint queryString response variables w =
        RawRequest lib g ctx endpoint ?body response w"
    if a: "queryVarsOf variables = Some m \<and> marshalEntries lib (mapEntries m) = Inr js"
    using pairs [OF a] by (simp add: Execute_query ExecuteOnEndpoint_query query_encoded)
  have body: "ReqBody (outboundRequest lib g ctx endpoint ?body) = ?body"
    by (rule ReqBody_outboundRequest)
  have texts: "marshalEntries lib (mapEntries m) = Inr js \<longrightarrow>
        list_all2
          (\<lambda>(k, v) j. \<exists>t. marshalValue lib v = Inr t \<and> j = marshalString lib k @ '':'' @ t)
          (mapEntries m) js"
    using marshalEntries_texts [of lib "mapEntries m" js] by blast
  have entries: "set (mapEntries m) = {(k, v). fmlookup m k = Some v}
      \<and> sorted (map fst (mapEntries m)) \<and> distinct (map fst (mapEntries m))"
    using mapEntries_set [of m] mapEntries_sorted [of m] by blast
  have calls: "Execute lib g ctx queryString response variables w =
       query lib g ctx ''graphql'' queryString (queryVarsOf variables) response w
   \<and> ExecuteOnEndpoint lib g ctx endpoint queryString response variables w =
       query lib g ctx endpoint queryString (queryVarsOf variables) response w"
    by (simp add: Execute_query ExecuteOnEndpoint_query)
  from nil none bare cons later pairs sends body texts entries calls show ?thesis
    by blast
qed

text \<open>
  Three mutators, the third overwriting the key of the first; the values are those of
  the test in \<open>graphql_test.go\<close>, as strings. The body \<open>Execute\<close> sends holds
  \<open>key1\<close> once, with the later value.
\<close>

theorem variables_in_order_witness:
  \<open>Encode sample_lib
     \<lparr>Query = ''q'',
      Variables = queryVarsOf (map (\<lambda>(k, v). WithVariable k v)
                    [(''key1'', Str ''1''), (''key2'', Str ''hello''), (''key1'', Str ''10'')])\<rparr> =
     Inr (''{"query":"q","variables":{"key1":"10","key2":"hello"}}'' @ [CHR 0x0A])
   \<and> (\<exists>m. queryVarsOf (map (\<lambda>(k, v). WithVariable k v)
                    [(''key1'', Str ''1''), (''key2'', Str ''hello''), (''key1'', Str ''10'')]) =
             Some m
           \<and> fmlookup m ''key1'' = Some (Str ''10'') \<and> fmlookup m ''key2'' = Some (Str ''hello''))
   \<and> Execute sample_lib (sample_client (ok_reply body_data)) () ''q'' ''old''
         (map (\<lambda>(k, v). WithVariable k v)
            [(''key1'', Str ''1''), (''key2'', Str ''hello''), (''key1'', Str ''10'')]) [] =
       RawRequest sample_lib (sample_client (ok_reply body_data)) () ''graphql''
         (''{"query":"q","variables":{"key1":"10","key2":"hello"}}'' @ [CHR 0x0A]) ''old'' []
   \<and> Encode sample_lib \<lparr>Query = ''q'', Variables = None\<rparr> =
       Inr (''{"query":"q","variables":null}'' @ [CHR 0x0A])
   \<and> Execute sample_lib (sample_client (ok_reply body_data)) () ''q'' ''old'' [] [] =
       RawRequest sample_lib (sample_client (ok_reply body_data)) () ''graphql''
         (''{"query":"q","variables":null}'' @ [CHR 0x0A]) ''old'' []\<close>
  using variables_in_order [where lib = sample_lib and queryString = "''q''"
      and variables = "map (\<lambda>(k, v). WithVariable k v)
         [(''key1'', Str ''1''), (''key2'', Str ''hello''), (''key1'', Str ''10'')]"
      and kvs = "[(''key1'', Str ''1''), (''key2'', Str ''hello''), (''key1'', Str ''10'')]"
      and m = "fmupd ''key1'' (Str ''10'') (fmupd ''key2'' (Str ''hello'')
                 (fmupd ''key1'' (Str ''1'') fmempty))"
      and js = "[sample_quote ''key1'' @ '':'' @ sample_quote ''10'',
        sample_quote ''key2'' @ '':'' @ sample_quote ''hello'']"
      and g = "sample_client (ok_reply body_data)" and ctx = "()"
      and response = "''old''" and w = "[]" and endpoint = "''graphql''"]
  by (simp add: queryVarsOf_def WithVariable_def sample_mapEntries sample_lib_fields
      sample_quote_def queryField_def variablesField_def)

subsection \<open>The log function\<close>

text \<open>
  C3 as stated, that the sink is called whenever the call comes to a response with
  status 200, does not hold. The transport returns a response with status 200 whose
  body cannot be read: the call returns the copy error at line 164, before the status
  is looked at, and the configured sink has recorded nothing.
\<close>

theorem sink_silent_on_unread_response:
  "logFunc (sample_client unread_reply) = Some recording
   \<and> reply (client (sample_client unread_reply)
         (outboundRequest sample_lib (sample_client unread_reply) () ''graphql'' ''{}'')) =
       Inr \<lparr>StatusCode = 200, Status = ''200 OK'', Body = Inl ''unexpected EOF''\<rparr>
   \<and> RawRequest sample_lib (sample_client unread_reply) () ''graphql'' ''{}'' ''old'' [] =
       (Some (CopyError ''unexpected EOF''), ''old'', [])"
  by (simp add: RawRequest_def sample_client_fields sample_round_trip unread_reply_def
      sample_lib_fields sample_targets Let_def)

text \<open>
  C3, amended. With a log function \<open>f\<close> configured, the outside world after
  \<open>RawRequest\<close> is \<open>f\<close> applied once, to the one string \<open>request:[...] data:[...]\<close> that
  holds the captured request and the response body, exactly when the request is made,
  the transport gives a response, its body is read in full and its status is 200.
  Nothing is assumed about the decoder, so this covers the calls that go on to return
  a decoding error or an error of the server. In every other call the world is
  unchanged: when the transport fails, when the status is not 200, and when the body
  cannot be read.
\<close>

theorem log_sink_once_on_ok_status:
  assumes "logFunc g = Some f"
    and "rt = client g (outboundRequest lib g ctx endpoint r)"
  shows "(\<forall>resp data.
            NewRequestError lib ctx (url g @ endpoint) = None \<and> reply rt = Inr resp \<and>
            Body resp = Inr data \<and> StatusCode resp = 200 \<longrightarrow>
            snd (snd (RawRequest lib g ctx endpoint r response w)) =
              f (logLine (take (sent rt) r) data) w
            \<and> sublist (take (sent rt) r) (logLine (take (sent rt) r) data)
            \<and> sublist data (logLine (take (sent rt) r) data))
       \<and> (\<not> (\<exists>resp data.
               NewRequestError lib ctx (url g @ endpoint) = None \<and> reply rt = Inr resp \<and>
               Body resp = Inr data \<and> StatusCode resp = 200) \<longrightarrow>
            snd (snd (RawRequest lib g ctx endpoint r response w)) = w)
       \<and> (\<forall>err. reply rt = Inl err \<longrightarrow>
            snd (snd (RawRequest lib g ctx endpoint r response w)) = w)
       \<and> (\<forall>resp. reply rt = Inr resp \<and> StatusCode resp \<noteq> 200 \<longrightarrow>
            snd (snd (RawRequest lib g ctx endpoint r response w)) = w)"
proof -
  have reached: "snd (snd (RawRequest lib g ctx endpoint r response w)) =
      f (logLine (take (sent rt) r) data) w"
    if "NewRequestError lib ctx (url g @ endpoint) = None" "reply rt = Inr resp"
      "Body resp = Inr data" "StatusCode resp = 200" for resp data
    using that assms
    by (simp add: RawRequest_def Let_def split: prod.splits sum.splits)
  have missed: "snd (snd (RawRequest lib g ctx endpoint r response w)) = w"
    if "\<not> (\<exists>resp data.
               NewRequestError lib ctx (url g @ endpoint) = None \<and> reply rt = Inr resp \<and>
               Body resp = Inr data \<and> StatusCode resp = 200)"
    using that assms(2)
    by (auto simp add: RawRequest_def Let_def split: option.splits sum.splits)
  have failed: "snd (snd (RawRequest lib g ctx endpoint r response w)) = w"
    if "reply rt = Inl err" for err
    using that by (intro missed) auto
  have refused: "snd (snd (RawRequest lib g ctx endpoint r response w)) = w"
    if "reply rt = Inr resp \<and> StatusCode resp \<noteq> 200" for resp
    using that by (intro missed) auto
  from reached missed failed refused logLine_holds_both show ?thesis
    by blast
qed

text \<open>
  The recording sink holds exactly one line after a 200 response, with an error of the
  server and with an undecodable (empty) body alike, and none after a refused
  connection, a 500 response or a body that cannot be read.
\<close>

theorem log_sink_once_on_ok_status_witness:
  "RawRequest sample_lib (sample_client (ok_reply body_errors)) () ''graphql'' ''{}'' ''old'' [] =
     (Some (OpError ''{}'' ''boom''), ''old'', [logLine ''{}'' body_errors])
   \<and> RawRequest sample_lib (sample_client (ok_reply [])) () ''graphql'' ''{}'' ''old'' [] =
     (Some (DecodingError ''unexpected end of JSON input'' []), ''old'', [logLine ''{}'' []])
   \<and> snd (snd (RawRequest sample_lib (sample_client refused_reply) ()
                  ''graphql'' ''{}'' ''old'' [])) = []
   \<and> snd (snd (RawRequest sample_lib (sample_client (server_error_reply body_errors)) ()
                  ''graphql'' ''{}'' ''old'' [])) = []
   \<and> snd (snd (RawRequest sample_lib (sample_client unread_reply) ()
                  ''graphql'' ''{}'' ''old'' [])) = []"
proof -
  have logged: "snd (snd (RawRequest sample_lib (sample_client (ok_reply data)) ()
      ''graphql'' ''{}'' ''old'' [])) = [logLine ''{}'' data]" for data
    using log_sink_once_on_ok_status [where g = "sample_client (ok_reply data)"
        and f = recording and lib = sample_lib and ctx = "()" and endpoint = "''graphql''"
        and r = "''{}''" and response = "''old''" and w = "[]"
        and rt = "replying (ok_reply data)
           (outboundRequest sample_lib (sample_client (ok_reply data)) () ''graphql'' ''{}'')"]
    by (simp add: sample_client_fields sample_round_trip ok_reply_def sample_lib_fields
        sample_targets recording_def)
  have silent: "snd (snd (RawRequest sample_lib (sample_client rep) ()
      ''graphql'' ''{}'' ''old'' [])) = []"
    if "rep = refused_reply \<or> rep = server_error_reply body_errors \<or>
        rep = unread_reply" for rep
    using that log_sink_once_on_ok_status [where g = "sample_client rep"
        and f = recording and lib = sample_lib and ctx = "()" and endpoint = "''graphql''"
        and r = "''{}''" and response = "''old''" and w = "[]"
        and rt = "replying rep
           (outboundRequest sample_lib (sample_client rep) () ''graphql'' ''{}'')"]
    by (auto simp add: sample_client_fields sample_round_trip server_error_reply_def
        unread_reply_def refused_reply_def)
  have first: "fst (RawRequest sample_lib (sample_client (ok_reply body_errors)) ()
        ''graphql'' ''{}'' ''old'' []) = Some (OpError ''{}'' ''boom'')
      \<and> fst (snd (RawRequest sample_lib (sample_client (ok_reply body_errors)) ()
        ''graphql'' ''{}'' ''old'' [])) = ''old''"
    by (simp add: RawRequest_def sample_client_fields sample_round_trip ok_reply_def
        sample_lib_fields sample_targets sample_Unmarshal_values Let_def)
  have second: "fst (RawRequest sample_lib (sample_client (ok_reply [])) ()
        ''graphql'' ''{}'' ''old'' []) =
          Some (DecodingError ''unexpected end of JSON input'' [])
      \<and> fst (snd (RawRequest sample_lib (sample_client (ok_reply [])) ()
        ''graphql'' ''{}'' ''old'' [])) = ''old''"
    by (simp add: RawRequest_def sample_client_fields sample_round_trip ok_reply_def
        sample_lib_fields sample_targets sample_Unmarshal_values Let_def)
  from first second logged [of body_errors] logged [of "[]"] silent show ?thesis
    by (simp add: prod_eq_iff)
qed

subsection \<open>The status of the response\<close>

text \<open>
  C4 as stated, for every response whose status is not 200, does not hold. The
  transport returns a response with status 500 whose body cannot be read: the body is
  read before the status is checked (lines 162-169), so the call returns
  \<open>graphql copy error: unexpected EOF\<close>, which does not hold the status text.
\<close>

theorem copy_error_names_no_status:
  "reply (client (sample_client unread_error_reply)
       (outboundRequest sample_lib (sample_client unread_error_reply) () ''graphql'' ''{}'')) =
     Inr \<lparr>StatusCode = 500, Status = ''500 Internal Server Error'',
          Body = Inl ''unexpected EOF''\<rparr>
   \<and> RawRequest sample_lib (sample_client unread_error_reply) () ''graphql'' ''{}'' ''old'' [] =
       (Some (CopyError ''unexpected EOF''), ''old'', [])
   \<and> Error (CopyError ''unexpected EOF'') = ''graphql copy error: unexpected EOF''
   \<and> \<not> sublist ''500 Internal Server Error'' (Error (CopyError ''unexpected EOF''))"
proof -
  have "\<not> sublist ''500 Internal Server Error'' ''graphql copy error: unexpected EOF''"
    by code_simp
  then show ?thesis
    by (simp add: RawRequest_def sample_client_fields sample_round_trip unread_error_reply_def
        sample_lib_fields sample_targets Let_def)
qed

text \<open>
  C4, amended. When the body of the response has been read and its status is other
  than 200, whatever the body \<open>data\<close> holds, \<open>RawRequest\<close> returns the error
  \<open>graphql op error: status code:\<close> followed by the status text. The destination and
  the outside world are as before the call (the log function is not called), and the
  result is the same with any other decoder in the place of \<open>Unmarshal\<close>: the body is
  neither decoded nor searched for errors.
\<close>

theorem status_error_ignores_body:
  assumes "NewRequestError lib ctx (url g @ endpoint) = None"
    and "reply (client g (outboundRequest lib g ctx endpoint r)) = Inr resp"
    and "Body resp = Inr data"
    and "StatusCode resp \<noteq> 200"
  shows "RawRequest lib g ctx endpoint r response w =
           (Some (StatusError (Status resp)), response, w)
       \<and> Error (StatusError (Status resp)) = ''graphql op error: status code: '' @ Status resp
       \<and> RawRequest (lib\<lparr>Unmarshal := decoder\<rparr>) g ctx endpoint r response w =
           RawRequest lib g ctx endpoint r response w"
proof -
  have same: "outboundRequest (lib\<lparr>Unmarshal := decoder\<rparr>) g ctx endpoint r =
      outboundRequest lib g ctx endpoint r"
    by (simp add: outboundRequest_def)
  have "RawRequest (lib\<lparr>Unmarshal := decoder\<rparr>) g ctx endpoint r response w =
      (Some (StatusError (Status resp)), response, w)"
    using assms by (intro RawRequest_bad_status) (simp_all add: same)
  then show ?thesis
    using RawRequest_bad_status [OF assms, of response w] by simp
qed

text \<open>
  A 500 response: the same error with a body that would decode to data and errors and
  with an empty body.
\<close>

theorem status_error_ignores_body_witness:
  "RawRequest sample_lib (sample_client (server_error_reply body_both))
     () ''graphql'' ''{}'' ''old'' [] =
     (Some (StatusError ''500 Internal Server Error''), ''old'', [])
   \<and> RawRequest sample_lib (sample_client (server_error_reply []))
     () ''graphql'' ''{}'' ''old'' [] =
     (Some (StatusError ''500 Internal Server Error''), ''old'', [])"
  using status_error_ignores_body [where lib = sample_lib and ctx = "()"
      and g = "sample_client (server_error_reply body_both)" and endpoint = "''graphql''"
      and r = "''{}''"
      and resp = "\<lparr>StatusCode = 500, Status = ''500 Internal Server Error'',
                    Body = Inr body_both\<rparr>"
      and data = body_both and response = "''old''" and w = "[]" and decoder = sample_Unmarshal]
    status_error_ignores_body [where lib = sample_lib and ctx = "()"
      and g = "sample_client (server_error_reply [])" and endpoint = "''graphql''"
      and r = "''{}''"
      and resp = "\<lparr>StatusCode = 500, Status = ''500 Internal Server Error'',
                    Body = Inr []\<rparr>"
      and data = "[]" and response = "''old''" and w = "[]" and decoder = sample_Unmarshal]
  by (simp add: sample_client_fields sample_round_trip server_error_reply_def sample_lib_fields
      sample_targets)

subsection \<open>The destination\<close>

text \<open>
  C5. The destination is the caller's to read only on success: a call that returns no
  error has made the request, received a response with status 200, read its body, and
  the destination it leaves is the one the decoder wrote from that body, with an empty
  list of errors. For \<open>Execute\<close> and \<open>ExecuteOnEndpoint\<close> the body sent is the encoded
  envelope. Nothing is stated for the calls that return an error: what the destination
  holds then is not promised.
\<close>

theorem destination_decoded_on_success:
  "(RawRequest lib g ctx endpoint r response w = (None, response', w') \<longrightarrow>
      (\<exists>resp data.
         NewRequestError lib ctx (url g @ endpoint) = None \<and>
         reply (client g (outboundRequest lib g ctx endpoint r)) = Inr resp \<and>
         Body resp = Inr data \<and> StatusCode resp = 200 \<and>
         Unmarshal lib data response = (response', Inr [])))
   \<and> (ExecuteOnEndpoint lib g ctx endpoint queryString response variables w =
         (None, response', w') \<longrightarrow>
      (\<exists>b. Encode lib \<lparr>Query = queryString, Variables = queryVarsOf variables\<rparr> = Inr b \<and>
           RawRequest lib g ctx endpoint b response w = (None, response', w')))
   \<and> (Execute lib g ctx queryString response variables w = (None, response', w') \<longrightarrow>
      (\<exists>b. Encode lib \<lparr>Query = queryString, Variables = queryVarsOf variables\<rparr> = Inr b \<and>
           RawRequest lib g ctx ''graphql'' b response w = (None, response', w')))"
proof -
  have raw: "RawRequest lib g ctx endpoint r response w = (None, response', w') \<longrightarrow>
      (\<exists>resp data.
         NewRequestError lib ctx (url g @ endpoint) = None \<and>
         reply (client g (outboundRequest lib g ctx endpoint r)) = Inr resp \<and>
         Body resp = Inr data \<and> StatusCode resp = 200 \<and>
         Unmarshal lib data response = (response', Inr []))"
    by (auto simp add: RawRequest_def Let_def
        split: option.splits prod.splits sum.splits if_splits)
  have sent: "query lib g ctx name queryString queryVars response w = (None, response', w') \<longrightarrow>
      (\<exists>b. Encode lib \<lparr>Query = queryString, Variables = queryVars\<rparr> = Inr b \<and>
           RawRequest lib g ctx name b response w = (None, response', w'))" for name queryVars
    by (auto simp add: query_def split: sum.splits)
  from raw sent [of endpoint "queryVarsOf variables"] sent [of "''graphql''" "queryVarsOf variables"]
  show ?thesis
    by (simp add: Execute_query ExecuteOnEndpoint_query)
qed

text \<open>
  The response \<open>body_data\<close>: the call returns no error and the destination \<open>old\<close> has
  become the decoded \<open>x\<close>.
\<close>

theorem destination_decoded_on_success_witness:
  "RawRequest sample_lib (sample_client (ok_reply body_data)) () ''graphql'' sample_body ''old'' [] =
     (None, ''x'', [logLine sample_body body_data])
   \<and> Execute sample_lib (sample_client (ok_reply body_data)) () ''q'' ''old'' [] [] =
     (None, ''x'', [logLine sample_body body_data])
   \<and> (\<exists>resp data.
         reply (client (sample_client (ok_reply body_data))
           (outboundRequest sample_lib (sample_client (ok_reply body_data)) () ''graphql''
              sample_body)) = Inr resp \<and>
         Body resp = Inr data \<and> StatusCode resp = 200 \<and>
         Unmarshal sample_lib data ''old'' = (''x'', Inr []))
   \<and> (\<exists>b. Encode sample_lib \<lparr>Query = ''q'', Variables = queryVarsOf []\<rparr> = Inr b \<and>
         RawRequest sample_lib (sample_client (ok_reply body_data)) () ''graphql'' b ''old'' [] =
           (None, ''x'', [logLine sample_body body_data]))"
proof -
  have raw: "RawRequest sample_lib (sample_client (ok_reply body_data)) () ''graphql'' sample_body
      ''old'' [] = (None, ''x'', [logLine sample_body body_data])"
    by (simp add: RawRequest_def sample_client_fields sample_round_trip ok_reply_def
        sample_lib_fields sample_targets sample_Unmarshal_values Let_def recording_def)
  have call: "Execute sample_lib (sample_client (ok_reply body_data)) () ''q'' ''old'' [] [] =
      (None, ''x'', [logLine sample_body body_data])"
    using raw by (simp add: Execute_query queryVarsOf_Nil query_def sample_body_encoded)
  from destination_decoded_on_success [where lib = sample_lib
      and g = "sample_client (ok_reply body_data)" and ctx = "()" and endpoint = "''graphql''"
      and r = sample_body and response = "''old''" and w = "[]" and response' = "''x''"
      and w' = "[logLine sample_body body_data]" and queryString = "''q''"
      and variables = "[]"] raw call
  show ?thesis by simp
qed

subsection \<open>The target URL\<close>

text \<open>
  C6. For every base URL \<open>u\<close> and every list of options built from the constructors of
  the package, the client of \<open>New\<close> stores \<open>u\<close> without its trailing slashes followed by
  one slash: what stands before that slash does not end in a slash. Appending any
  number \<open>n\<close> of slashes to \<open>u\<close> gives the same client, hence the same target URL for
  the same endpoint name.
\<close>

theorem New_url_normalized:
  "url (New lib u (map option_of settings)) = TrimRight u ''/'' @ ''/''
   \<and> (\<forall>b. TrimRight u ''/'' \<noteq> b @ ''/'')
   \<and> New lib (u @ replicate n CHR ''/'') (map option_of settings) =
       New lib u (map option_of settings)
   \<and> URL (outboundRequest lib (New lib u (map option_of settings)) ctx endpoint r) =
       TrimRight u ''/'' @ ''/'' @ endpoint
   \<and> URL (outboundRequest lib (New lib (u @ replicate n CHR ''/'') (map option_of settings))
            ctx endpoint r) =
       URL (outboundRequest lib (New lib u (map option_of settings)) ctx endpoint r)"
  by (simp add: New_def url_fold_options TrimRight_slashes TrimRight_no_slash_end
      URL_outboundRequest)

text \<open>The base URLs \<open>http://host\<close> and \<open>http://host///\<close> both give \<open>http://host/\<close>.\<close>

theorem New_url_normalized_witness:
  "url (New sample_lib ''http://host''
          (map option_of [UseHeader ''X'' ''Y'' :: (unit, string list) setting])) = ''http://host/''
   \<and> url (New sample_lib ''http://host///''
          (map option_of [UseHeader ''X'' ''Y'' :: (unit, string list) setting])) = ''http://host/''"
  using New_url_normalized [of sample_lib "''http://host''"
      "[UseHeader ''X'' ''Y'' :: (unit, string list) setting]" 3 "()"
      "''graphql''" "''{}''"]
  by (simp add: TrimRight_def eval_nat_numeral)

subsection \<open>Headers\<close>

text \<open>
  C7 as stated, that a configured pair appears verbatim on the request, does not hold
  for a key that is not in canonical form. The header configured as \<open>x-a: 1\<close> is set
  with \<open>Header.Set\<close>, which stores it under \<open>X-A\<close>; the request has no entry \<open>x-a\<close>.
\<close>

theorem header_key_not_verbatim:
  "fmlookup (Header (outboundRequest sample_lib
       (New sample_lib ''http://host''
          [WithHeader ''x-a'' ''1'' :: (unit, string list) GraphQL \<Rightarrow> _])
       () ''graphql'' ''{}'')) ''x-a'' = None
   \<and> fmlookup (Header (outboundRequest sample_lib
       (New sample_lib ''http://host''
          [WithHeader ''x-a'' ''1'' :: (unit, string list) GraphQL \<Rightarrow> _])
       () ''graphql'' ''{}'')) ''X-A'' = Some [''1'']"
proof -
  let ?g = "New sample_lib ''http://host''
          [WithHeader ''x-a'' ''1'' :: (unit, string list) GraphQL \<Rightarrow> _]"
  have hs: "headers ?g = fmupd ''x-a'' ''1'' fmempty"
    by (simp add: New_def WithHeader_def)
  have keys: "rangeKeys sample_lib (fmupd ''x-a'' ''1'' fmempty) = [''x-a'']"
    by (simp add: sample_lib_def) code_simp
  show ?thesis
    by (simp add: Header_outboundRequest keys hs Header_Set_def sample_canonical
        fixedHeaders_def)
qed

text \<open>
  C7, amended. \<open>WithHeader\<close> with an empty key changes nothing, and with another key it
  changes only the entry of that key in the header map of the client. A configured
  pair is on every outbound request with its value unchanged, under the canonical form
  of its key, provided no other configured key has the same canonical form (otherwise
  the order of the loop decides whose value stays); the entry is under the key itself
  when the key is canonical. A client built by \<open>New\<close> from the options of the package
  has no empty key in its header map, and none of its requests has a header with an
  empty name.
\<close>

theorem WithHeader_on_requests:
  "WithHeader '''' val gql = gql
   \<and> (key \<noteq> '''' \<longrightarrow> WithHeader key val gql = gql\<lparr>headers := fmupd key val (headers gql)\<rparr>)
   \<and> (range_enumerates lib (headers g) \<and> fmlookup (headers g) key = Some val \<and>
        (\<forall>k. k |\<in>| fmdom (headers g) \<and>
              CanonicalMIMEHeaderKey k = CanonicalMIMEHeaderKey key \<longrightarrow> k = key) \<longrightarrow>
        fmlookup (Header (outboundRequest lib g ctx endpoint r)) (CanonicalMIMEHeaderKey key) =
          Some [val]
        \<and> (CanonicalMIMEHeaderKey key = key \<longrightarrow>
             fmlookup (Header (outboundRequest lib g ctx endpoint r)) key = Some [val]))
   \<and> '''' |\<notin>| fmdom (headers (New lib u (map option_of settings)))
   \<and> (range_enumerates lib (headers (New lib u (map option_of settings))) \<longrightarrow>
        fmlookup (Header (outboundRequest lib (New lib u (map option_of settings))
                            ctx endpoint r)) '''' = None)"
proof -
  have carried: "fmlookup (Header (outboundRequest lib g ctx endpoint r))
      (CanonicalMIMEHeaderKey key) = Some [val]"
    if "range_enumerates lib (headers g)" "fmlookup (headers g) key = Some val"
      "\<forall>k. k |\<in>| fmdom (headers g) \<and>
              CanonicalMIMEHeaderKey k = CanonicalMIMEHeaderKey key \<longrightarrow> k = key"
    using that by (rule request_header_single)
  have none: "fmlookup (Header (outboundRequest lib (New lib u (map option_of settings))
                            ctx endpoint r)) '''' = None"
    if en: "range_enumerates lib (headers (New lib u (map option_of settings)))"
  proof -
    have "\<forall>k. k |\<in>| fmdom (headers (New lib u (map option_of settings))) \<longrightarrow>
        CanonicalMIMEHeaderKey k \<noteq> ''''"
      using New_no_empty_key [of lib u settings]
      by (metis CanonicalMIMEHeaderKey_empty)
    from request_header_absent [OF en this, of ctx endpoint r] show ?thesis
      by (simp add: fixedHeaders_lookup)
  qed
  from carried none show ?thesis
    by (auto simp add: WithHeader_def New_no_empty_key)
qed

text \<open>The configuration of the specification: \<open>X: Y\<close>, and an empty key that is dropped.\<close>

theorem WithHeader_on_requests_witness:
  "fmlookup (Header (outboundRequest sample_lib
       (New sample_lib ''http://host''
          [WithHeader ''X'' ''Y'', WithHeader '''' ''Z'' :: (unit, string list) GraphQL \<Rightarrow> _])
       () ''graphql'' ''{}'')) ''X'' = Some [''Y'']
   \<and> headers (New sample_lib ''http://host''
          [WithHeader ''X'' ''Y'', WithHeader '''' ''Z'' :: (unit, string list) GraphQL \<Rightarrow> _]) =
       fmupd ''X'' ''Y'' fmempty
   \<and> fmlookup (Header (outboundRequest sample_lib
       (New sample_lib ''http://host''
          [WithHeader ''X'' ''Y'', WithHeader '''' ''Z'' :: (unit, string list) GraphQL \<Rightarrow> _])
       () ''graphql'' ''{}'')) '''' = None"
proof -
  let ?ss = "[UseHeader ''X'' ''Y'', UseHeader '''' ''Z'' :: (unit, string list) setting]"
  let ?g = "New sample_lib ''http://host''
      [WithHeader ''X'' ''Y'', WithHeader '''' ''Z'' :: (unit, string list) GraphQL \<Rightarrow> _]"
  have hs: "headers ?g = fmupd ''X'' ''Y'' fmempty"
    by (simp add: New_def WithHeader_def)
  from WithHeader_on_requests [where val = "''Y''" and gql = ?g and key = "''X''"
      and lib = sample_lib and g = ?g and ctx = "()" and endpoint = "''graphql''"
      and r = "''{}''" and u = "''http://host''" and settings = ?ss]
  show ?thesis
    by (simp add: hs sample_range_enumerates sample_canonical)
qed

text \<open>
  C8. The header map of every outbound request is the three fixed headers
  (\<open>Cache-Control: no-cache\<close>, \<open>Content-Type: application/json\<close>,
  \<open>Accept: application/json\<close>) with every configured header set on top of them, in the
  order of the loop. So a header name that no configured key stands for keeps its
  fixed value (or is absent), a name that a configured key stands for carries the value
  of such a key, and a configured header with the name of a fixed one replaces the
  fixed value.
\<close>

theorem fixed_headers_then_custom:
  assumes "range_enumerates lib (headers g)"
  shows "Header (outboundRequest lib g ctx endpoint r) =
           fold (\<lambda>key h. case fmlookup (headers g) key of
                            Some val \<Rightarrow> Header_Set h key val
                          | None \<Rightarrow> h)
             (rangeKeys lib (headers g)) fixedHeaders
       \<and> fmlookup fixedHeaders ''Cache-Control'' = Some [''no-cache'']
       \<and> fmlookup fixedHeaders ''Content-Type'' = Some [''application/json'']
       \<and> fmlookup fixedHeaders ''Accept'' = Some [''application/json'']
       \<and> ((\<forall>k. k |\<in>| fmdom (headers g) \<longrightarrow> CanonicalMIMEHeaderKey k \<noteq> name) \<longrightarrow>
            fmlookup (Header (outboundRequest lib g ctx endpoint r)) name =
              fmlookup fixedHeaders name)
       \<and> ((\<exists>k. k |\<in>| fmdom (headers g) \<and> CanonicalMIMEHeaderKey k = name) \<longrightarrow>
            (\<exists>key val. fmlookup (headers g) key = Some val \<and>
               CanonicalMIMEHeaderKey key = name \<and>
               fmlookup (Header (outboundRequest lib g ctx endpoint r)) name = Some [val]))
       \<and> (name |\<in>| fmdom fixedHeaders \<and> fmlookup (headers g) name = Some val \<and>
            (\<forall>k. k |\<in>| fmdom (headers g) \<and> CanonicalMIMEHeaderKey k = name \<longrightarrow> k = name) \<longrightarrow>
            fmlookup (Header (outboundRequest lib g ctx endpoint r)) name = Some [val])"
proof -
  have replaced: "fmlookup (Header (outboundRequest lib g ctx endpoint r)) name = Some [val]"
    if "name |\<in>| fmdom fixedHeaders" "fmlookup (headers g) name = Some val"
      "\<forall>k. k |\<in>| fmdom (headers g) \<and> CanonicalMIMEHeaderKey k = name \<longrightarrow> k = name"
  proof -
    from that(1) have canon: "CanonicalMIMEHeaderKey name = name"
      by (auto simp add: fixedHeaders_def fixed_names_canonical)
    from request_header_single [OF assms that(2), of ctx endpoint r] that(3) canon
    show ?thesis by simp
  qed
  from request_header_absent [OF assms, of name ctx endpoint r]
    request_header_custom [OF assms, of _ name ctx endpoint r]
    replaced
  show ?thesis
    by (simp add: Header_outboundRequest fixedHeaders_lookup) blast
qed

text \<open>
  A configured \<open>Content-Type: text/plain\<close> replaces the fixed value; \<open>Accept\<close> keeps
  its own.
\<close>

theorem fixed_headers_then_custom_witness:
  "fmlookup (Header (outboundRequest sample_lib
       (New sample_lib ''http://host''
          [WithHeader ''Content-Type'' ''text/plain'' :: (unit, string list) GraphQL \<Rightarrow> _])
       () ''graphql'' ''{}'')) ''Content-Type'' = Some [''text/plain'']
   \<and> fmlookup (Header (outboundRequest sample_lib
       (New sample_lib ''http://host''
          [WithHeader ''Content-Type'' ''text/plain'' :: (unit, string list) GraphQL \<Rightarrow> _])
       () ''graphql'' ''{}'')) ''Accept'' = Some [''application/json'']"
proof -
  let ?g = "New sample_lib ''http://host''
          [WithHeader ''Content-Type'' ''text/plain'' :: (unit, string list) GraphQL \<Rightarrow> _]"
  have hs: "headers ?g = fmupd ''Content-Type'' ''text/plain'' fmempty"
    by (simp add: New_def WithHeader_def)
  have "''Content-Type'' |\<in>| fmdom fixedHeaders \<and>
        fmlookup (headers ?g) ''Content-Type'' = Some ''text/plain'' \<and>
        (\<forall>k. k |\<in>| fmdom (headers ?g) \<and> CanonicalMIMEHeaderKey k = ''Content-Type'' \<longrightarrow>
             k = ''Content-Type'') \<longrightarrow>
        fmlookup (Header (outboundRequest sample_lib ?g () ''graphql'' ''{}''))
          ''Content-Type'' = Some [''text/plain'']"
    using fixed_headers_then_custom [OF sample_range_enumerates, of ?g "()" "''graphql''"
        "''{}''" "''Content-Type''" "''text/plain''"]
    by blast
  then have one: "fmlookup (Header (outboundRequest sample_lib ?g () ''graphql'' ''{}''))
      ''Content-Type'' = Some [''text/plain'']"
    by (simp add: hs fixedHeaders_def)
  have "(\<forall>k. k |\<in>| fmdom (headers ?g) \<longrightarrow> CanonicalMIMEHeaderKey k \<noteq> ''Accept'') \<longrightarrow>
        fmlookup (Header (outboundRequest sample_lib ?g () ''graphql'' ''{}'')) ''Accept'' =
          fmlookup fixedHeaders ''Accept''"
    using fixed_headers_then_custom [OF sample_range_enumerates, of ?g "()" "''graphql''"
        "''{}''" "''Accept''" "''unused''"]
    by blast
  then have two: "fmlookup (Header (outboundRequest sample_lib ?g () ''graphql'' ''{}''))
      ''Accept'' = Some [''application/json'']"
    by (simp add: hs fixed_names_canonical fixedHeaders_def)
  from one two show ?thesis by simp
qed

subsection \<open>The two entry points\<close>

text \<open>
  C9. \<open>Execute\<close> is \<open>ExecuteOnEndpoint\<close> at the endpoint name \<open>graphql\<close>: for every
  client, context, query string, destination, list of variable mutators and outside
  world the two calls give the same error, the same destination and the same world.
  Both hand \<open>query\<close> the same envelope (the query string and the variables map built
  from the mutators); only the endpoint name differs.
\<close>

theorem Execute_eq_ExecuteOnEndpoint_graphql:
  "Execute lib g ctx queryString response variables w =
     ExecuteOnEndpoint lib g ctx ''graphql'' queryString response variables w
   \<and> Execute lib g ctx queryString response variables w =
       query lib g ctx ''graphql'' queryString (queryVarsOf variables) response w
   \<and> ExecuteOnEndpoint lib g ctx endpoint queryString response variables w =
       query lib g ctx endpoint queryString (queryVarsOf variables) response w"
  by (simp add: Execute_def ExecuteOnEndpoint_def queryVarsOf_def)

subsection \<open>The request body\<close>

text \<open>
  C10. When the variables can be encoded, the body of the request that \<open>Execute\<close> and
  \<open>ExecuteOnEndpoint\<close> send is the JSON object with the fields \<open>query\<close> and
  \<open>variables\<close>, which ends in a closing brace, followed by one newline character:
  \<open>Encode\<close> writes these bytes into the buffer, \<open>query\<close> passes the buffer to
  \<open>RawRequest\<close>, and \<open>RawRequest\<close> gives it to the client unchanged as the body.
\<close>

theorem body_ends_with_one_newline:
  assumes "marshalMap lib (queryVarsOf variables) = Inr vars"
  shows "(let j = queryField @ marshalString lib queryString @ variablesField @ vars @ ''}''
          in last j = CHR ''}''
           \<and> Encode lib \<lparr>Query = queryString, Variables = queryVarsOf variables\<rparr> =
               Inr (j @ [CHR 0x0A])
           \<and> ExecuteOnEndpoint lib g ctx endpoint queryString response variables w =
               RawRequest lib g ctx endpoint (j @ [CHR 0x0A]) response w
           \<and> Execute lib g ctx queryString response variables w =
               RawRequest lib g ctx ''graphql'' (j @ [CHR 0x0A]) response w
           \<and> ReqBody (outboundRequest lib g ctx endpoint (j @ [CHR 0x0A])) = j @ [CHR 0x0A])"
proof -
  have encoded: "Encode lib \<lparr>Query = queryString, Variables = queryVarsOf variables\<rparr> =
        Inr ((queryField @ marshalString lib queryString @ variablesField @ vars @ ''}'') @
             [CHR 0x0A])"
    using assms by (simp add: Encode_marshalled)
  then have calls: "ExecuteOnEndpoint lib g ctx endpoint queryString response variables w =
        RawRequest lib g ctx endpoint
          ((queryField @ marshalString lib queryString @ variablesField @ vars @ ''}'') @
           [CHR 0x0A]) response w
      \<and> Execute lib g ctx queryString response variables w =
        RawRequest lib g ctx ''graphql''
          ((queryField @ marshalString lib queryString @ variablesField @ vars @ ''}'') @
           [CHR 0x0A]) response w"
    by (simp add: Execute_query ExecuteOnEndpoint_query query_encoded)
  have ends: "last (queryField @ marshalString lib queryString @ variablesField @ vars @ ''}'') =
      CHR ''}''"
    by simp
  from encoded calls ends show ?thesis
    by (simp add: ReqBody_outboundRequest Let_def)
qed

text \<open>The body for the query \<open>q\<close> without variables, as in the test of the errors.\<close>

theorem body_ends_with_one_newline_witness:
  \<open>Execute sample_lib (sample_client refused_reply) () ''q'' ''old'' [] [] =
     RawRequest sample_lib (sample_client refused_reply) () ''graphql''
       (''{"query":"q","variables":null}'' @ [CHR 0x0A]) ''old'' []
   \<and> Encode sample_lib \<lparr>Query = ''q'', Variables = queryVarsOf []\<rparr> =
       Inr (''{"query":"q","variables":null}'' @ [CHR 0x0A])
   \<and> ReqBody (outboundRequest sample_lib (sample_client refused_reply) ()
       ''graphql'' (''{"query":"q","variables":null}'' @ [CHR 0x0A])) =
       ''{"query":"q","variables":null}'' @ [CHR 0x0A]\<close>
  using body_ends_with_one_newline [where lib = sample_lib and variables = "[]"
      and g = "sample_client refused_reply" and ctx = "()"
      and endpoint = "''graphql''" and queryString = "''q''" and response = "''old''"
      and w = "[]" and vars = "''null''"]
  by (simp add: queryVarsOf_def marshalMap_def sample_lib_fields sample_quote_def
      queryField_def variablesField_def)

subsection \<open>The other exits of RawRequest\<close>

text \<open>
  X1. The body of the response is read before its status is looked at (lines 162-169):
  when reading fails, \<open>RawRequest\<close> returns the copy error whatever the status is, also
  200, and neither logs nor decodes.
\<close>

theorem copy_error_before_status:
  assumes "NewRequestError lib ctx (url g @ endpoint) = None"
    and "reply (client g (outboundRequest lib g ctx endpoint r)) = Inr resp"
    and "Body resp = Inl err"
  shows "RawRequest lib g ctx endpoint r response w = (Some (CopyError err), response, w)
       \<and> Error (CopyError err) = ''graphql copy error: '' @ err"
  using RawRequest_body_unread [OF assms] by simp

theorem copy_error_before_status_witness:
  "RawRequest sample_lib (sample_client unread_reply) () ''graphql'' ''{}'' ''old'' [] =
     (Some (CopyError ''unexpected EOF''), ''old'', [])"
  using copy_error_before_status [where lib = sample_lib and ctx = "()"
      and g = "sample_client unread_reply" and endpoint = "''graphql''" and r = "''{}''"
      and resp = "\<lparr>StatusCode = 200, Status = ''200 OK'', Body = Inl ''unexpected EOF''\<rparr>"
      and err = "''unexpected EOF''" and response = "''old''" and w = "[]"]
  by (simp add: sample_client_fields sample_round_trip unread_reply_def sample_lib_fields
      sample_targets)

text \<open>
  X2. When the transport fails, \<open>RawRequest\<close> returns the error of the transport behind
  the prefix \<open>graphql request error:\<close>; the destination and the outside world are as
  before.
\<close>

theorem transport_error_returned:
  assumes "NewRequestError lib ctx (url g @ endpoint) = None"
    and "reply (client g (outboundRequest lib g ctx endpoint r)) = Inl err"
  shows "RawRequest lib g ctx endpoint r response w = (Some (RequestError err), response, w)
       \<and> Error (RequestError err) = ''graphql request error: '' @ err"
  using RawRequest_transport_failed [OF assms] by simp

theorem transport_error_returned_witness:
  "RawRequest sample_lib (sample_client refused_reply) () ''graphql'' ''{}''
     ''old'' [] = (Some (RequestError sample_dial_error), ''old'', [])"
  using transport_error_returned [where lib = sample_lib and ctx = "()"
      and g = "sample_client refused_reply" and endpoint = "''graphql''"
      and r = "''{}''" and err = sample_dial_error and response = "''old''"
      and w = "[]"]
  by (simp add: sample_client_fields sample_round_trip sample_lib_fields sample_targets
      refused_reply_def)

text \<open>
  X3. When the request cannot be made, \<open>RawRequest\<close> returns the error behind the
  prefix \<open>graphql create request error:\<close> and the client is not called: the result is
  the same with any other transport.
\<close>

theorem request_not_created:
  assumes "NewRequestError lib ctx (url g @ endpoint) = Some err"
  shows "RawRequest lib g ctx endpoint r response w =
           (Some (CreateRequestError err), response, w)
       \<and> RawRequest lib (g\<lparr>client := transport\<rparr>) ctx endpoint r response w =
           RawRequest lib g ctx endpoint r response w
       \<and> Error (CreateRequestError err) = ''graphql create request error: '' @ err"
  using assms by (simp add: RawRequest_def)

theorem request_not_created_witness:
  "RawRequest sample_lib (sample_client_at ''http://host/%zz'' (ok_reply body_data)) ()
     ''graphql'' ''{}'' ''old'' [] =
     (Some (CreateRequestError sample_parse_error), ''old'', [])"
  using request_not_created [where lib = sample_lib and ctx = "()"
      and g = "sample_client_at ''http://host/%zz'' (ok_reply body_data)"
      and endpoint = "''graphql''" and r = "''{}''" and err = sample_parse_error
      and response = "''old''" and w = "[]"]
  by (simp add: sample_client_at_fields TrimRight_def sample_lib_fields sample_targets)

subsection \<open>The destination on the paths that return an error\<close>

text \<open>
  X4. A call that returns an error may have written the destination. The response
  \<open>body_both\<close> has status 200 and carries \<open>data\<close> and \<open>errors\<close>: decoding stores the
  data in the destination (\<open>old\<close> becomes \<open>x\<close>), and the call then returns the error
  of the server.
\<close>

theorem destination_written_on_error_path:
  "RawRequest sample_lib (sample_client (ok_reply body_both)) () ''graphql'' ''{}'' ''old'' [] =
     (Some (OpError ''{}'' ''boom''), ''x'', [logLine ''{}'' body_both])"
  by (simp add: RawRequest_def sample_client_fields sample_round_trip ok_reply_def
      sample_lib_fields sample_targets sample_Unmarshal_values Let_def recording_def)

text \<open>
  X5. What the destination holds after a call, path by path. It is as it was when the
  request cannot be made, when the transport fails, when the body cannot be read, when
  the status is not 200, and when the envelope cannot be encoded. Once a response
  with status 200 has been read it is what the decoder left in it, whether the call
  then returns no error, a decoding error or an error of the server.
\<close>

theorem destination_after_call:
  assumes "rt = client g (outboundRequest lib g ctx endpoint r)"
    and "RawRequest lib g ctx endpoint r response w = (err, response', w')"
  shows "(\<forall>e. NewRequestError lib ctx (url g @ endpoint) = Some e \<longrightarrow> response' = response)
       \<and> (\<forall>e. reply rt = Inl e \<longrightarrow> response' = response)
       \<and> (\<forall>resp e. reply rt = Inr resp \<and> Body resp = Inl e \<longrightarrow> response' = response)
       \<and> (\<forall>resp. reply rt = Inr resp \<and> StatusCode resp \<noteq> 200 \<longrightarrow> response' = response)
       \<and> (\<forall>resp data.
             NewRequestError lib ctx (url g @ endpoint) = None \<and> reply rt = Inr resp \<and>
             Body resp = Inr data \<and> StatusCode resp = 200 \<longrightarrow>
             response' = fst (Unmarshal lib data response))
       \<and> (err = None \<longrightarrow>
            (\<exists>resp data.
               NewRequestError lib ctx (url g @ endpoint) = None \<and> reply rt = Inr resp \<and>
               Body resp = Inr data \<and> StatusCode resp = 200 \<and>
               Unmarshal lib data response = (response', Inr [])))
       \<and> (\<forall>e. Encode lib \<lparr>Query = queryString, Variables = queryVars\<rparr> = Inl e \<longrightarrow>
            fst (snd (query lib g ctx endpoint queryString queryVars response w)) = response)"
proof -
  have a: "\<forall>e. NewRequestError lib ctx (url g @ endpoint) = Some e \<longrightarrow> response' = response"
    using assms(2) by (auto simp add: RawRequest_def)
  have b: "\<forall>e. reply rt = Inl e \<longrightarrow> response' = response"
    using assms by (auto simp add: RawRequest_def Let_def split: option.splits)
  have c: "\<forall>resp e. reply rt = Inr resp \<and> Body resp = Inl e \<longrightarrow> response' = response"
    using assms by (auto simp add: RawRequest_def Let_def split: option.splits)
  have d: "\<forall>resp. reply rt = Inr resp \<and> StatusCode resp \<noteq> 200 \<longrightarrow> response' = response"
    using assms by (auto simp add: RawRequest_def Let_def split: option.splits sum.splits)
  have e: "\<forall>resp data.
             NewRequestError lib ctx (url g @ endpoint) = None \<and> reply rt = Inr resp \<and>
             Body resp = Inr data \<and> StatusCode resp = 200 \<longrightarrow>
             response' = fst (Unmarshal lib data response)"
    using assms
    by (auto simp add: RawRequest_def Let_def split: prod.splits sum.splits if_splits)
  have f: "err = None \<longrightarrow>
            (\<exists>resp data.
               NewRequestError lib ctx (url g @ endpoint) = None \<and> reply rt = Inr resp \<and>
               Body resp = Inr data \<and> StatusCode resp = 200 \<and>
               Unmarshal lib data response = (response', Inr []))"
    using assms
    by (auto simp add: RawRequest_def Let_def
        split: option.splits prod.splits sum.splits if_splits)
  have g: "\<forall>e. Encode lib \<lparr>Query = queryString, Variables = queryVars\<rparr> = Inl e \<longrightarrow>
            fst (snd (query lib g ctx endpoint queryString queryVars response w)) = response"
    by (simp add: query_not_encoded)
  from a b c d e f g show ?thesis by blast
qed

text \<open>
  One call for each path: success, an error of the server after decoding, status 500,
  an unreadable body, a refused connection, a target URL that does not parse, and a
  variable that cannot be encoded.
\<close>

theorem destination_after_call_witness:
  "RawRequest sample_lib (sample_client (ok_reply body_data)) () ''graphql'' ''{}'' ''old'' [] =
     (None, ''x'', [logLine ''{}'' body_data])
   \<and> fst (snd (RawRequest sample_lib (sample_client (ok_reply body_both)) ()
        ''graphql'' ''{}'' ''old'' [])) = ''x''
   \<and> fst (snd (RawRequest sample_lib (sample_client (server_error_reply body_both)) ()
        ''graphql'' ''{}'' ''old'' [])) = ''old''
   \<and> fst (snd (RawRequest sample_lib (sample_client unread_reply) ()
        ''graphql'' ''{}'' ''old'' [])) = ''old''
   \<and> fst (snd (RawRequest sample_lib (sample_client refused_reply) ()
        ''graphql'' ''{}'' ''old'' [])) = ''old''
   \<and> fst (snd (RawRequest sample_lib (sample_client_at ''http://host/%zz'' (ok_reply body_data))
        () ''graphql'' ''{}'' ''old'' [])) = ''old''
   \<and> fst (snd (query sample_lib (sample_client (ok_reply body_data)) () ''graphql'' ''q''
        (Some (fmupd ''c'' Chan fmempty)) ''old'' [])) = ''old''"
proof -
  have after: "(rep = ok_reply body_data \<or> rep = ok_reply body_both \<longrightarrow>
        fst (snd (RawRequest sample_lib (sample_client rep) () ''graphql'' ''{}'' ''old'' [])) =
          ''x'')
      \<and> (rep = server_error_reply body_both \<or> rep = unread_reply \<or>
          rep = refused_reply \<longrightarrow>
        fst (snd (RawRequest sample_lib (sample_client rep) () ''graphql'' ''{}'' ''old'' [])) =
          ''old'')" for rep
    using destination_after_call [where lib = sample_lib and g = "sample_client rep"
        and ctx = "()" and endpoint = "''graphql''" and r = "''{}''" and response = "''old''"
        and w = "[]"
        and rt = "replying rep
          (outboundRequest sample_lib (sample_client rep) () ''graphql'' ''{}'')"
        and err = "fst (RawRequest sample_lib (sample_client rep) () ''graphql'' ''{}''
          ''old'' [])"
        and response' = "fst (snd (RawRequest sample_lib (sample_client rep) () ''graphql''
          ''{}'' ''old'' []))"
        and w' = "snd (snd (RawRequest sample_lib (sample_client rep) () ''graphql'' ''{}''
          ''old'' []))"
        and queryString = "''q''" and queryVars = None]
    by (auto simp add: sample_client_fields sample_round_trip ok_reply_def
        server_error_reply_def unread_reply_def refused_reply_def sample_lib_fields
        sample_targets
        sample_Unmarshal_values)
  let ?g = "sample_client_at ''http://host/%zz'' (ok_reply body_data)"
  have target: "url ?g @ ''graphql'' = ''http://host/%zz/graphql''"
    by (simp add: sample_client_at_fields TrimRight_def)
  have unmade: "fst (snd (RawRequest sample_lib ?g () ''graphql'' ''{}'' ''old'' [])) = ''old''"
    using destination_after_call [where lib = sample_lib and g = ?g
        and ctx = "()" and endpoint = "''graphql''" and r = "''{}''" and response = "''old''"
        and w = "[]"
        and rt = "client ?g (outboundRequest sample_lib ?g () ''graphql'' ''{}'')"
        and err = "fst (RawRequest sample_lib ?g () ''graphql'' ''{}'' ''old'' [])"
        and response' = "fst (snd (RawRequest sample_lib ?g () ''graphql'' ''{}'' ''old'' []))"
        and w' = "snd (snd (RawRequest sample_lib ?g () ''graphql'' ''{}'' ''old'' []))"
        and queryString = "''q''" and queryVars = None]
    by (simp add: target sample_lib_fields sample_targets)
  have entries: "mapEntries (fmupd ''c'' Chan fmempty) = [(''c'', Chan)]"
    by code_simp
  have "Encode sample_lib \<lparr>Query = ''q'', Variables = Some (fmupd ''c'' Chan fmempty)\<rparr> =
      Inl ''json: unsupported type: chan int''"
    by (simp add: Encode_def Marshal_def marshalMap_def entries sample_lib_fields)
  then have unsent: "fst (snd (query sample_lib (sample_client (ok_reply body_data)) () ''graphql''
      ''q'' (Some (fmupd ''c'' Chan fmempty)) ''old'' [])) = ''old''"
    using destination_after_call [where lib = sample_lib
        and g = "sample_client (ok_reply body_data)"
        and ctx = "()" and endpoint = "''graphql''" and r = "''{}''" and response = "''old''"
        and w = "[]"
        and rt = "replying (ok_reply body_data)
          (outboundRequest sample_lib (sample_client (ok_reply body_data)) () ''graphql'' ''{}'')"
        and err = "fst (RawRequest sample_lib (sample_client (ok_reply body_data)) ()
          ''graphql'' ''{}'' ''old'' [])"
        and response' = "fst (snd (RawRequest sample_lib (sample_client (ok_reply body_data)) ()
          ''graphql'' ''{}'' ''old'' []))"
        and w' = "snd (snd (RawRequest sample_lib (sample_client (ok_reply body_data)) ()
          ''graphql'' ''{}'' ''old'' []))"
        and queryString = "''q''" and queryVars = "Some (fmupd ''c'' Chan fmempty)"]
    by (simp add: sample_client_fields)
  have whole: "RawRequest sample_lib (sample_client (ok_reply body_data)) () ''graphql'' ''{}''
      ''old'' [] = (None, ''x'', [logLine ''{}'' body_data])"
    by (simp add: RawRequest_def sample_client_fields sample_round_trip ok_reply_def
        sample_lib_fields sample_targets sample_Unmarshal_values Let_def recording_def)
  from after [of "ok_reply body_both"] after [of "server_error_reply body_both"]
    after [of unread_reply] after [of refused_reply] unmade unsent whole
  show ?thesis by simp
qed

end
